theory Spec2Isabelle
  imports Complex_Main "HOL-Library.Sublist"
begin

section \<open>JavaScript strings\<close>

text \<open>
  Source text is a \<^typ>\<open>string\<close>: a list of characters with codes 0..255, read as
  the Latin-1 range of JavaScript's UTF-16 code units. The string methods the
  analyzers call are written out below with the behaviour they have on that range.
\<close>

text \<open>\<^verbatim>\<open>s.includes(sub)\<close>: \<open>sub\<close> occurs somewhere in \<open>s\<close>.\<close>

fun str_includes :: "string \<Rightarrow> string \<Rightarrow> bool" where
  "str_includes [] sub = (sub = [])"
| "str_includes (c # cs) sub = (prefix sub (c # cs) \<or> str_includes cs sub)"

text \<open>\<^verbatim>\<open>s.startsWith(p)\<close>.\<close>

definition startsWith :: "string \<Rightarrow> string \<Rightarrow> bool" where
  "startsWith s p = prefix p s"

text \<open>The rest of \<open>s\<close> after the prefix \<open>p\<close>, when \<open>s\<close> starts with \<open>p\<close>.\<close>

fun strip_prefix :: "string \<Rightarrow> string \<Rightarrow> string option" where
  "strip_prefix [] s = Some s"
| "strip_prefix (p # ps) [] = None"
| "strip_prefix (p # ps) (c # cs) = (if p = c then strip_prefix ps cs else None)"

text \<open>\<^verbatim>\<open>s.replace(pat, rep)\<close> with a string pattern: the first occurrence only.\<close>

fun str_replace :: "string \<Rightarrow> string \<Rightarrow> string \<Rightarrow> string" where
  "str_replace [] pat rep = (if pat = [] then rep else [])"
| "str_replace (c # cs) pat rep =
     (case strip_prefix pat (c # cs) of
        Some rest \<Rightarrow> rep @ rest
      | None \<Rightarrow> c # str_replace cs pat rep)"

text \<open>
  \<^verbatim>\<open>s.toLowerCase()\<close>: on the Latin-1 range the letters A-Z and the accented
  capitals 0xC0-0xDE (without the multiplication sign 0xD7) move up by 32.
\<close>

definition toLowerCase_char :: "char \<Rightarrow> char" where
  "toLowerCase_char c =
     (let n = (of_char c :: nat) in
      if (65 \<le> n \<and> n \<le> 90) \<or> (192 \<le> n \<and> n \<le> 222 \<and> n \<noteq> 215)
      then char_of (n + 32) else c)"

definition toLowerCase :: "string \<Rightarrow> string" where
  "toLowerCase s = map toLowerCase_char s"

text \<open>
  White space of \<^verbatim>\<open>s.trim()\<close> on the Latin-1 range: tab, line feed, vertical tab,
  form feed, carriage return, space and the no-break space.
\<close>

definition isWhiteSpace :: "char \<Rightarrow> bool" where
  "isWhiteSpace c =
     (let n = (of_char c :: nat) in (9 \<le> n \<and> n \<le> 13) \<or> n = 32 \<or> n = 160)"

definition trim :: "string \<Rightarrow> string" where
  "trim s = rev (dropWhile isWhiteSpace (rev (dropWhile isWhiteSpace s)))"

text \<open>\<^verbatim>\<open>s.split(sep)\<close> with a one-character separator.\<close>

fun split_char :: "char \<Rightarrow> string \<Rightarrow> string list" where
  "split_char sep [] = [[]]"
| "split_char sep (c # cs) =
     (case split_char sep cs of
        [] \<Rightarrow> (if c = sep then [[], []] else [[c]])
      | w # ws \<Rightarrow> (if c = sep then [] # w # ws else (c # w) # ws))"

text \<open>The character classes of the regular expressions in the source.\<close>

definition isUpperAZ :: "char \<Rightarrow> bool" where
  "isUpperAZ c = (let n = (of_char c :: nat) in 65 \<le> n \<and> n \<le> 90)"

definition isLowerAZ :: "char \<Rightarrow> bool" where
  "isLowerAZ c = (let n = (of_char c :: nat) in 97 \<le> n \<and> n \<le> 122)"

definition isDigit :: "char \<Rightarrow> bool" where
  "isDigit c = (let n = (of_char c :: nat) in 48 \<le> n \<and> n \<le> 57)"

definition isAlnum :: "char \<Rightarrow> bool" where
  "isAlnum c = (isLowerAZ c \<or> isUpperAZ c \<or> isDigit c)"

definition isQuote :: "char \<Rightarrow> bool" where
  "isQuote c = (c = CHR 0x27 \<or> c = CHR 0x22)"

text \<open>JavaScript truthiness of a string, and of a string that may be null or undefined.\<close>

definition truthy :: "string \<Rightarrow> bool" where
  "truthy s = (s \<noteq> [])"

definition truthy_opt :: "string option \<Rightarrow> bool" where
  "truthy_opt v = (case v of None \<Rightarrow> False | Some s \<Rightarrow> truthy s)"

section \<open>Errors\<close>

text \<open>
  \<open>ParseError message code\<close> is the repository's \<^verbatim>\<open>ParseError\<close> with its message and
  the \<^verbatim>\<open>{ code }\<close> details; \<open>OtherError message\<close> is any other rejection (an
  error of the file system, of glob or of the cache backend). A function that can
  throw returns \<open>error + 'a\<close>.
\<close>

datatype error = ParseError string string | OtherError string

definition error_message :: "error \<Rightarrow> string" where
  "error_message e = (case e of ParseError m _ \<Rightarrow> m | OtherError m \<Rightarrow> m)"

section \<open>Syntax trees and library functions\<close>

text \<open>
  The part of the Babel syntax tree the visitors of \<^verbatim>\<open>parsePlugin\<close> look at. A class
  declaration carries its name (\<^verbatim>\<open>id\<close>, which may be null), its superclass expression
  (which may be null) and the members of its body; its decorators are left out.
  Every other node kind is \<open>OtherNode\<close> with its children in traversal order.
\<close>

datatype node =
    ImportDeclaration string
  | ExportNamedDeclaration "node option"
  | ClassDeclaration "string option" "node option" "node list"
  | ClassMethod node "node list"
  | ClassProperty node "node option"
  | Identifier string
  | StringLiteral string
  | MemberExpression node node
  | CallExpression node "node list"
  | OtherNode "node list"

text \<open>
  \<^verbatim>\<open>traverse(ast, visitors)\<close> walks depth first and calls a visitor when it enters a
  node: \<open>traverse\<close> lists the nodes in that order.
\<close>

fun traverse :: "node \<Rightarrow> node list" where
  "traverse (ImportDeclaration src) = [ImportDeclaration src]"
| "traverse (ExportNamedDeclaration d) =
     ExportNamedDeclaration d # (case d of None \<Rightarrow> [] | Some n \<Rightarrow> traverse n)"
| "traverse (ClassDeclaration cid superClass body) =
     ClassDeclaration cid superClass body
       # (case superClass of None \<Rightarrow> [] | Some n \<Rightarrow> traverse n) @ concat (map traverse body)"
| "traverse (ClassMethod k body) = ClassMethod k body # traverse k @ concat (map traverse body)"
| "traverse (ClassProperty k v) =
     ClassProperty k v # traverse k @ (case v of None \<Rightarrow> [] | Some n \<Rightarrow> traverse n)"
| "traverse (Identifier x) = [Identifier x]"
| "traverse (StringLiteral x) = [StringLiteral x]"
| "traverse (MemberExpression obj prop) = MemberExpression obj prop # traverse obj @ traverse prop"
| "traverse (CallExpression callee args) =
     CallExpression callee args # traverse callee @ concat (map traverse args)"
| "traverse (OtherNode ns) = OtherNode ns # concat (map traverse ns)"

text \<open>
  A PostCSS tree: a comment with its text, a declaration with \<^verbatim>\<open>prop\<close>,
  \<^verbatim>\<open>value\<close> and the children of the block that may follow it in SCSS (none for a
  plain declaration), an at-rule with \<^verbatim>\<open>name\<close>, \<^verbatim>\<open>params\<close> and children, a rule
  with its \<^verbatim>\<open>selectors\<close> and children. \<^verbatim>\<open>root.walk\<close> visits every node before its
  children, in document order; \<^verbatim>\<open>walkComments\<close>, \<^verbatim>\<open>walkDecls\<close>, \<^verbatim>\<open>walkAtRules\<close>
  and \<^verbatim>\<open>walkRules\<close> are that walk kept to one kind of node.
\<close>

datatype css_node =
    Comment string
  | Declaration string string "css_node list"
  | AtRule string string "css_node list"
  | Rule "string list" "css_node list"

fun walk :: "css_node \<Rightarrow> css_node list" where
  "walk (Comment t) = [Comment t]"
| "walk (Declaration p v ns) = Declaration p v ns # concat (map walk ns)"
| "walk (AtRule n ps ns) = AtRule n ps ns # concat (map walk ns)"
| "walk (Rule sels ns) = Rule sels ns # concat (map walk ns)"

definition walk_root :: "css_node list \<Rightarrow> css_node list" where
  "walk_root nodes = concat (map walk nodes)"

text \<open>
  Node's and the libraries' functions the repository calls: the two grammars (a parse
  either fails with the library's message or returns the tree), the path helpers, and
  the repository's two doc-comment extractors, which are total functions of the text
  (the description they put into their object under a name, if any) and are computed
  by no property below.
\<close>

record libs =
  babelParse :: "string \<Rightarrow> string + node list"
  postcssParse :: "string \<Rightarrow> string + css_node list"
  path_join :: "string \<Rightarrow> string \<Rightarrow> string"
  path_basename :: "string \<Rightarrow> string \<Rightarrow> string"
  path_relative :: "string \<Rightarrow> string \<Rightarrow> string"
  extractJSDoc :: "string \<Rightarrow> string \<Rightarrow> string option"
  extractSassDoc :: "string \<Rightarrow> string \<Rightarrow> string option"

section \<open>The script parser (utils/parser.ts, parsePlugin)\<close>

record ParsedPlugin =
  className :: string
  methods :: "string list"
  properties :: "string list"
  events :: "string list"
  extendsClass :: "string option"
  imports' :: "string list"
  exports :: "string list"

text \<open>The local variables of \<^verbatim>\<open>parsePlugin\<close> before the traversal.\<close>

definition initial_plugin :: ParsedPlugin where
  "initial_plugin =
     \<lparr>className = [], methods = [], properties = [], events = [],
      extendsClass = None, imports' = [], exports = []\<rparr>"

text \<open>The member loop of the \<^verbatim>\<open>ExportNamedDeclaration\<close> visitor: it pushes without a check.\<close>

definition export_member :: "ParsedPlugin \<Rightarrow> node \<Rightarrow> ParsedPlugin" where
  "export_member s m =
     (case m of
        ClassMethod (Identifier k) _ \<Rightarrow> s\<lparr>methods := methods s @ [k]\<rparr>
      | ClassProperty (Identifier k) _ \<Rightarrow> s\<lparr>properties := properties s @ [k]\<rparr>
      | _ \<Rightarrow> s)"

text \<open>The member loop of the \<^verbatim>\<open>ClassDeclaration\<close> visitor: it pushes what is not there yet.\<close>

definition class_member :: "ParsedPlugin \<Rightarrow> node \<Rightarrow> ParsedPlugin" where
  "class_member s m =
     (case m of
        ClassMethod (Identifier k) _ \<Rightarrow>
          (if k \<in> set (methods s) then s else s\<lparr>methods := methods s @ [k]\<rparr>)
      | ClassProperty (Identifier k) _ \<Rightarrow>
          (if k \<in> set (properties s) then s else s\<lparr>properties := properties s @ [k]\<rparr>)
      | _ \<Rightarrow> s)"

definition visit_ExportNamedDeclaration :: "ParsedPlugin \<Rightarrow> node option \<Rightarrow> ParsedPlugin" where
  "visit_ExportNamedDeclaration s d =
     (case d of
        Some (ClassDeclaration cid superClass body) \<Rightarrow>
          (let s1 = (case cid of
                       Some n \<Rightarrow> s\<lparr>className := n, exports := exports s @ [n]\<rparr>
                     | None \<Rightarrow> s);
               s2 = (case superClass of
                       Some (Identifier p) \<Rightarrow> s1\<lparr>extendsClass := Some p\<rparr>
                     | _ \<Rightarrow> s1)
           in foldl export_member s2 body)
      | _ \<Rightarrow> s)"

definition visit_ClassDeclaration ::
  "ParsedPlugin \<Rightarrow> string option \<Rightarrow> node option \<Rightarrow> node list \<Rightarrow> ParsedPlugin" where
  "visit_ClassDeclaration s cid superClass body =
     (let s1 = (case cid of
                  Some n \<Rightarrow> (if \<not> truthy (className s) then s\<lparr>className := n\<rparr> else s)
                | None \<Rightarrow> s);
          s2 = (case superClass of
                  Some (Identifier p) \<Rightarrow>
                    (if \<not> truthy_opt (extendsClass s1) then s1\<lparr>extendsClass := Some p\<rparr> else s1)
                | _ \<Rightarrow> s1)
      in foldl class_member s2 body)"

definition visit_CallExpression :: "ParsedPlugin \<Rightarrow> node \<Rightarrow> node list \<Rightarrow> ParsedPlugin" where
  "visit_CallExpression s callee args =
     (case callee of
        MemberExpression _ (Identifier p) \<Rightarrow>
          (if p = ''trigger'' \<or> p = ''fire''
           then (case args of
                   StringLiteral v # _ \<Rightarrow> s\<lparr>events := events s @ [v]\<rparr>
                 | _ \<Rightarrow> s)
           else s)
      | _ \<Rightarrow> s)"

text \<open>The four visitors; a node of any other kind has none.\<close>

definition visit :: "ParsedPlugin \<Rightarrow> node \<Rightarrow> ParsedPlugin" where
  "visit s n =
     (case n of
        ImportDeclaration src \<Rightarrow> (if truthy src then s\<lparr>imports' := imports' s @ [src]\<rparr> else s)
      | ExportNamedDeclaration d \<Rightarrow> visit_ExportNamedDeclaration s d
      | ClassDeclaration cid superClass body \<Rightarrow> visit_ClassDeclaration s cid superClass body
      | CallExpression callee args \<Rightarrow> visit_CallExpression s callee args
      | _ \<Rightarrow> s)"

text \<open>The traversal of a program (the statements of the file) from the initial variables.\<close>

definition traverse_program :: "node list \<Rightarrow> ParsedPlugin" where
  "traverse_program body = foldl visit initial_plugin (concat (map traverse body))"

text \<open>
  \<^verbatim>\<open>parsePlugin\<close>: any failure inside the \<^verbatim>\<open>try\<close> block is rethrown as a
  \<^verbatim>\<open>ParseError\<close> that carries the library's message and the source text.
\<close>

definition parsePlugin :: "libs \<Rightarrow> string \<Rightarrow> error + ParsedPlugin" where
  "parsePlugin L code =
     (case babelParse L code of
        Inl m \<Rightarrow> Inl (ParseError (''Failed to parse JavaScript plugin: '' @ m) code)
      | Inr body \<Rightarrow> Inr (traverse_program body))"

section \<open>The stylesheet parser (utils/parser.ts, parseComponent)\<close>

record sass_variable =
  var_name :: string
  var_defaultValue :: string
  var_description :: "string option"

record sass_mixin =
  mixin_name :: string
  mixin_parameters :: "string list"
  mixin_description :: "string option"

record ParsedComponent =
  variables :: "sass_variable list"
  mixins :: "sass_mixin list"
  classes :: "string list"

text \<open>\<^verbatim>\<open>currentComment || undefined\<close>.\<close>

definition or_undefined :: "string \<Rightarrow> string option" where
  "or_undefined s = (if truthy s then Some s else None)"

text \<open>
  The callback of \<^verbatim>\<open>walkComments\<close>: every comment overwrites \<^verbatim>\<open>currentComment\<close>.
  The walk is finished before the declarations are walked.
\<close>

definition on_comment :: "string \<Rightarrow> css_node \<Rightarrow> string" where
  "on_comment currentComment n = (case n of Comment t \<Rightarrow> trim t | _ \<Rightarrow> currentComment)"

text \<open>The callback of \<^verbatim>\<open>walkDecls\<close> on the pair (variables, currentComment).\<close>

definition on_decl :: "sass_variable list \<times> string \<Rightarrow> css_node \<Rightarrow> sass_variable list \<times> string" where
  "on_decl st n =
     (case n of
        Declaration p v _ \<Rightarrow>
          (if startsWith p ''$''
           then (fst st @ [\<lparr>var_name = p, var_defaultValue = v,
                            var_description = or_undefined (snd st)\<rparr>], [])
           else st)
      | _ \<Rightarrow> st)"

text \<open>The parameter list of a mixin: the text after the first \<^verbatim>\<open>(\<close>, when there is any.\<close>

definition mixin_params :: "string list \<Rightarrow> string list" where
  "mixin_params params =
     (case params of
        _ # p1 # _ \<Rightarrow>
          (if truthy p1 then map trim (split_char (CHR '','') (str_replace p1 '')'' [])) else [])
      | _ \<Rightarrow> [])"

text \<open>The callback of \<^verbatim>\<open>walkAtRules\<close> on the pair (mixins, currentComment).\<close>

definition on_atrule :: "sass_mixin list \<times> string \<Rightarrow> css_node \<Rightarrow> sass_mixin list \<times> string" where
  "on_atrule st n =
     (case n of
        AtRule nm ps _ \<Rightarrow>
          (if nm = ''mixin''
           then (let params = split_char (CHR ''('') ps in
                 (fst st @ [\<lparr>mixin_name = (case params of p0 # _ \<Rightarrow> trim p0 | [] \<Rightarrow> []),
                               mixin_parameters = mixin_params params,
                               mixin_description = or_undefined (snd st)\<rparr>], []))
           else st)
      | _ \<Rightarrow> st)"

text \<open>
  \<^verbatim>\<open>selector.match(/\.([a-zA-Z0-9_-]+)/g)\<close> with the dot of each match removed: after a
  dot, the longest run of class-name characters, when it is not empty; the search
  goes on behind the match.
\<close>

definition isClassChar :: "char \<Rightarrow> bool" where
  "isClassChar c = (isAlnum c \<or> c = CHR ''_'' \<or> c = CHR ''-'')"

function class_tokens :: "string \<Rightarrow> string list" where
  "class_tokens [] = []"
| "class_tokens (c # cs) =
     (if c = CHR ''.'' \<and> takeWhile isClassChar cs \<noteq> []
      then takeWhile isClassChar cs # class_tokens (dropWhile isClassChar cs)
      else class_tokens cs)"
  by pat_completeness auto
termination
  by (relation "measure length") (auto simp: less_Suc_eq_le length_dropWhile_le)

definition push_new :: "string list \<Rightarrow> string \<Rightarrow> string list" where
  "push_new xs x = (if x \<in> set xs then xs else xs @ [x])"

text \<open>The callback of \<^verbatim>\<open>walkRules\<close> on the list of classes.\<close>

definition on_rule :: "string list \<Rightarrow> css_node \<Rightarrow> string list" where
  "on_rule cls n =
     (case n of
        Rule sels _ \<Rightarrow> foldl (\<lambda>acc sel. foldl push_new acc (class_tokens sel)) cls sels
      | _ \<Rightarrow> cls)"

text \<open>The four walks of \<^verbatim>\<open>parseComponent\<close> over a parsed root, one after the other.\<close>

definition walk_component :: "css_node list \<Rightarrow> ParsedComponent" where
  "walk_component nodes =
     (let ns = walk_root nodes;
          c0 = foldl on_comment [] ns;
          (vars, c1) = foldl on_decl ([], c0) ns;
          (mxs, c2) = foldl on_atrule ([], c1) ns;
          cls = foldl on_rule [] ns
      in \<lparr>variables = vars, mixins = mxs, classes = cls\<rparr>)"

definition parseComponent :: "libs \<Rightarrow> string \<Rightarrow> error + ParsedComponent" where
  "parseComponent L code =
     (case postcssParse L code of
        Inl m \<Rightarrow> Inl (ParseError (''Failed to parse SCSS component: '' @ m) code)
      | Inr nodes \<Rightarrow> Inr (walk_component nodes))"

section \<open>The file system (utils/fileSystem.ts)\<close>

text \<open>
  The file system at the time of a call, as Node answers: \<^verbatim>\<open>fs.access\<close> resolves or
  not, \<^verbatim>\<open>fs.readFile\<close> and \<^verbatim>\<open>glob\<close> resolve or reject with a message.
\<close>

record filesystem =
  fs_access :: "string \<Rightarrow> bool"
  fs_readFile :: "string \<Rightarrow> string + string"
  glob :: "string \<Rightarrow> string \<Rightarrow> string + string list"

definition fileExists :: "filesystem \<Rightarrow> string \<Rightarrow> bool" where
  "fileExists F filePath = fs_access F filePath"

definition readFile :: "filesystem \<Rightarrow> string \<Rightarrow> error + string" where
  "readFile F filePath =
     (case fs_readFile F filePath of Inl m \<Rightarrow> Inl (OtherError m) | Inr content \<Rightarrow> Inr content)"

definition findFiles :: "filesystem \<Rightarrow> string \<Rightarrow> string \<Rightarrow> error + string list" where
  "findFiles F baseDir pattern =
     (case glob F baseDir pattern of Inl m \<Rightarrow> Inl (OtherError m) | Inr files \<Rightarrow> Inr files)"

section \<open>The pattern analyzer (engines/PluginAnalyzer.ts)\<close>

datatype severity = SevError | SevWarning | SevInfo

record ValidationIssue =
  severity :: severity
  message :: string
  suggestion :: "string option"

datatype match_class = Matches | PartialMatch | NoMatch

record conformance_scores =
  architecture :: int
  conventions :: int
  accessibility :: int

record AnalyzePatternResult =
  matches :: match_class
  issues :: "ValidationIssue list"
  conformance :: conformance_scores
  suggestions :: "string list"

text \<open>
  One attempt of \<^verbatim>\<open>/\.trigger\(['"]([^'"]+)['"]\)/\<close> at the start of a text: the
  event name and the text behind the match. The name is the longest run without a
  quote; a shorter one would have to be followed by a quote and is not.
\<close>

definition match_trigger :: "string \<Rightarrow> (string \<times> string) option" where
  "match_trigger s =
     (case strip_prefix ''.trigger('' s of
        None \<Rightarrow> None
      | Some r \<Rightarrow>
          (case r of
             [] \<Rightarrow> None
           | q # r1 \<Rightarrow>
               (if \<not> isQuote q \<or> takeWhile (\<lambda>c. \<not> isQuote c) r1 = [] then None
                else (case dropWhile (\<lambda>c. \<not> isQuote c) r1 of
                        q2 # c # r3 \<Rightarrow>
                          (if c = CHR '')'' then Some (takeWhile (\<lambda>c. \<not> isQuote c) r1, r3)
                           else None)
                      | _ \<Rightarrow> None))))"

lemma strip_prefix_length: "strip_prefix p s = Some r \<Longrightarrow> length r \<le> length s"
  by (induction p s rule: strip_prefix.induct) (auto split: if_splits)

lemma match_trigger_length: "match_trigger s = Some (name, r) \<Longrightarrow> length r < length s"
proof -
  assume m: "match_trigger s = Some (name, r)"
  then obtain r0 where r0: "strip_prefix ''.trigger('' s = Some r0"
    by (auto simp: match_trigger_def split: option.splits)
  with m obtain q r1 where r1: "r0 = q # r1"
    by (cases r0) (auto simp: match_trigger_def)
  from m r0 r1 obtain q2 c where "dropWhile (\<lambda>c. \<not> isQuote c) r1 = q2 # c # r"
    by (auto simp: match_trigger_def split: if_splits list.splits)
  then have "length r < length (dropWhile (\<lambda>c. \<not> isQuote c) r1)"
    by simp
  also have "\<dots> \<le> length r1"
    by (rule length_dropWhile_le)
  also have "\<dots> \<le> length r0"
    using r1 by simp
  also have "\<dots> \<le> length s"
    using r0 by (rule strip_prefix_length)
  finally show ?thesis .
qed

text \<open>
  \<^verbatim>\<open>[...code.matchAll(eventPattern)].map(m => m[1])\<close>: the matches from left to right,
  each search starting behind the match before.
\<close>

function trigger_events :: "string \<Rightarrow> string list" where
  "trigger_events [] = []"
| "trigger_events (c # cs) =
     (case match_trigger (c # cs) of
        Some (name, rest) \<Rightarrow> name # trigger_events rest
      | None \<Rightarrow> trigger_events cs)"
  by pat_completeness auto
termination trigger_events
  by (relation "measure length") (auto dest: match_trigger_length)

text \<open>\<^verbatim>\<open>/^[A-Z][a-zA-Z0-9]*$/.test(name)\<close>.\<close>

definition isPascalCase :: "string \<Rightarrow> bool" where
  "isPascalCase s = (case s of [] \<Rightarrow> False | c # cs \<Rightarrow> isUpperAZ c \<and> list_all isAlnum cs)"

text \<open>The running scores and issues of \<^verbatim>\<open>analyzePluginPattern\<close>.\<close>

record tally =
  found :: "ValidationIssue list"
  architectureScore :: int
  conventionsScore :: int
  accessibilityScore :: int

definition issue :: "severity \<Rightarrow> string \<Rightarrow> string \<Rightarrow> ValidationIssue" where
  "issue sev msg sug = \<lparr>severity = sev, message = msg, suggestion = Some sug\<rparr>"

definition push_issues :: "tally \<Rightarrow> ValidationIssue list \<Rightarrow> tally" where
  "push_issues t is = t\<lparr>found := found t @ is\<rparr>"

definition missing_method_issue :: "string \<Rightarrow> ValidationIssue" where
  "missing_method_issue m =
     issue SevError (''Missing required method: '' @ m)
       (''Add '' @ m @ ''() method to your plugin class'')"

text \<open>The body of the \<^verbatim>\<open>try\<close> block after a successful parse, check by check.\<close>

definition score_plugin :: "ParsedPlugin \<Rightarrow> string \<Rightarrow> AnalyzePatternResult" where
  "score_plugin parsed code =
     (let t0 = \<lparr>found = [], architectureScore = 0, conventionsScore = 0, accessibilityScore = 0\<rparr>;
          t1 = (if extendsClass parsed = Some ''Plugin''
                then t0\<lparr>architectureScore := architectureScore t0 + 30\<rparr>
                else push_issues t0
                  [issue SevError ''Plugin must extend the Plugin base class''
                     ''export class YourPlugin extends Plugin { ... }'']);
          missingMethods = filter (\<lambda>m. m \<notin> set (methods parsed)) [''_init'', ''_destroy''];
          t2 = (if missingMethods = []
                then t1\<lparr>architectureScore := architectureScore t1 + 40\<rparr>
                else push_issues t1 (map missing_method_issue missingMethods));
          t3 = (if ''constructor'' \<in> set (methods parsed)
                then t2\<lparr>architectureScore := architectureScore t2 + 10\<rparr>
                else push_issues t2
                  [issue SevWarning ''Plugin should have a constructor''
                     ''constructor(element, options) { super(element, options); }'']);
          t4 = (if truthy (className parsed) \<and> isPascalCase (className parsed)
                then t3\<lparr>conventionsScore := conventionsScore t3 + 30\<rparr>
                else push_issues t3
                  [issue SevWarning ''Plugin class name should be PascalCase''
                     ''Use PascalCase for class names (e.g., MyPlugin)'']);
          t5 = (if str_includes code ''/**'' \<and> str_includes code ''@class''
                then t4\<lparr>conventionsScore := conventionsScore t4 + 20\<rparr>
                else push_issues t4
                  [issue SevInfo ''Add JSDoc comments to your plugin''
                     ''Add /** @class */ comment above your plugin class'']);
          evs = trigger_events code;
          hasNamespacedEvents = list_ex (\<lambda>e. str_includes e ''.zf.'') evs;
          t6 = (if hasNamespacedEvents \<or> evs = []
                then t5\<lparr>conventionsScore := conventionsScore t5 + 20\<rparr>
                else push_issues t5
                  [issue SevWarning ''Events should use .zf.{plugin} namespace''
                     (''Use event names like 'open.zf.accordion'' @ [CHR 0x27])]);
          t7 = (if str_includes code ''aria-'' \<or> str_includes code ''role=''
                then t6\<lparr>accessibilityScore := accessibilityScore t6 + 40\<rparr>
                else push_issues t6
                  [issue SevWarning ''Plugin should implement ARIA attributes for accessibility''
                     ''Add ARIA attributes for screen reader support'']);
          t8 = (if str_includes code ''Keyboard'' \<or> str_includes code ''KEYS''
                then t7\<lparr>accessibilityScore := accessibilityScore t7 + 30\<rparr>
                else push_issues t7
                  [issue SevInfo ''Consider adding keyboard navigation support''
                     ''Use Foundation.Keyboard utility for keyboard events'']);
          t9 = (if str_includes code ''focus()'' \<or> str_includes code ''$element.focus''
                then t8\<lparr>accessibilityScore := accessibilityScore t8 + 30\<rparr>
                else t8);
          a = min (architectureScore t9) 100;
          c = min (conventionsScore t9 + 30) 100;
          x = min (accessibilityScore t9) 100;
          overallScore = real_of_int (a + c + x) / 3;
          m = (if overallScore \<ge> 80 then Matches
               else if overallScore \<ge> 50 then PartialMatch else NoMatch);
          sugg = (if a < 80 then [''Review Foundation plugin architecture guide''] else [])
               @ (if c < 80 then [''Follow Foundation naming conventions''] else [])
               @ (if x < 80 then [''Improve accessibility with ARIA and keyboard support''] else [])
      in \<lparr>matches = m, issues = found t9,
          conformance = \<lparr>architecture = a, conventions = c, accessibility = x\<rparr>,
          suggestions = sugg\<rparr>)"

text \<open>The report of the \<^verbatim>\<open>catch\<close> block.\<close>

definition parse_failure_report :: AnalyzePatternResult where
  "parse_failure_report =
     \<lparr>matches = NoMatch,
      issues = [issue SevError ''Failed to parse code'' ''Ensure code is valid JavaScript''],
      conformance = \<lparr>architecture = 0, conventions = 0, accessibility = 0\<rparr>,
      suggestions = [''Fix syntax errors before analyzing'']\<rparr>"

definition analyzePluginPattern :: "libs \<Rightarrow> string \<Rightarrow> AnalyzePatternResult" where
  "analyzePluginPattern L code =
     (case parsePlugin L code of
        Inl e \<Rightarrow> parse_failure_report
      | Inr parsed \<Rightarrow> score_plugin parsed code)"

datatype patternType = Plugin | Component | Utility | Test

record AnalyzePatternParams =
  p_code :: string
  p_patternType :: patternType

text \<open>The report for a pattern type other than plugin.\<close>

definition not_implemented_report :: AnalyzePatternResult where
  "not_implemented_report =
     \<lparr>matches = NoMatch, issues = [],
      conformance = \<lparr>architecture = 0, conventions = 0, accessibility = 0\<rparr>,
      suggestions = [''Analysis for this pattern type is not yet implemented'']\<rparr>"

text \<open>
  \<^verbatim>\<open>analyzePattern\<close>: a rejected read of an existing path rejects the call. The
  logger's console lines are not part of what the analyzer returns.
\<close>

definition analyzePattern ::
  "libs \<Rightarrow> filesystem \<Rightarrow> AnalyzePatternParams \<Rightarrow> error + AnalyzePatternResult" where
  "analyzePattern L F params =
     (case (if fileExists F (p_code params) then readFile F (p_code params)
            else Inr (p_code params)) of
        Inl e \<Rightarrow> Inl e
      | Inr code \<Rightarrow>
          Inr (if p_patternType params = Plugin then analyzePluginPattern L code
               else not_implemented_report))"

section \<open>The catalog (types.ts)\<close>

text \<open>
  The four kinds of catalog entry share a name and a slug; the constant
  \<^verbatim>\<open>type\<close> tag of an entry is the type of its record. A snapshot is the four catalogs.

  The description of a plugin, a component or a utility is declared a string and is
  the value of \<^verbatim>\<open>docs[key] || fallback\<close> on a plain object: a text, or, when the key
  is no documented name but the name of a member of \<^verbatim>\<open>Object.prototype\<close>, that member.
\<close>

datatype description = Text string | Inherited string

record named =
  name :: string
  slug :: string

record FoundationPlugin = named +
  plugin_path :: string
  plugin_description :: description
  plugin_className :: string
  selector :: string
  supportsNesting :: bool
  deprecatedInVersion :: "string option"
  plugin_docs :: string

record FoundationComponent = named +
  component_scssPath :: string
  component_description :: description
  component_mixins :: "string list"
  cssClasses :: "string list"
  component_docs :: string

record FoundationUtility = named +
  utility_path :: string
  utility_description :: description
  utility_exports :: "string list"

record FoundationGrid = named +
  grid_scssPath :: string
  grid_description :: string

record FoundationIndex =
  plugins :: "FoundationPlugin list"
  components :: "FoundationComponent list"
  utilities :: "FoundationUtility list"
  grids :: "FoundationGrid list"

section \<open>The cache and the logger (utils/cache.ts, utils/logger.ts)\<close>

text \<open>
  The cache as the indexer sees it through \<^verbatim>\<open>CacheInterface\<close>: a store of type \<open>'c\<close>
  with \<^verbatim>\<open>get\<close> (null is \<open>None\<close>), \<^verbatim>\<open>set\<close> and \<^verbatim>\<open>delete\<close>. Each of the three
  returns a promise and may reject (\<^verbatim>\<open>RedisCache\<close> awaits its client and parses what
  it reads); a rejected \<^verbatim>\<open>set\<close> or \<^verbatim>\<open>delete\<close> leaves the store as it was. Only
  catalog snapshots are ever stored. What a backend keeps (time to live, size bound)
  is the backend's matter: a property that needs an entry to be still there says so.
\<close>

record 'c CacheInterface =
  cache_get :: "'c \<Rightarrow> string \<Rightarrow> error + FoundationIndex option"
  cache_set :: "'c \<Rightarrow> string \<Rightarrow> FoundationIndex \<Rightarrow> error + 'c"
  cache_delete :: "'c \<Rightarrow> string \<Rightarrow> error + 'c"

text \<open>
  \<^verbatim>\<open>MemoryCache\<close> while nothing expires and nothing is evicted: the LRU store is a
  finite map, and none of its methods throws.
\<close>

definition MemoryCache :: "(string \<rightharpoonup> FoundationIndex) CacheInterface" where
  "MemoryCache =
     \<lparr>cache_get = (\<lambda>c k. Inr (c k)),
      cache_set = (\<lambda>c k v. Inr (c(k \<mapsto> v))),
      cache_delete = (\<lambda>c k. Inr (c(k := None)))\<rparr>"

definition pluginIndex :: string where
  "pluginIndex = ''foundation:plugins:index''"


datatype LogLevel = LogDebug | LogInfo | LogWarn | LogError

text \<open>
  The second argument of a call to the logger: an object literal with its fields, or
  a caught error passed as it is.
\<close>

datatype log_meta = Fields "(string \<times> string) list" | Thrown error

record log_entry =
  level :: LogLevel
  logged :: string
  meta :: "log_meta option"

datatype fs_call = FindFiles string string | ReadFile string

text \<open>
  What a call changes: the contents of the cache, the calls made to the logger (each
  with its level, its message and its second argument, if any) and the calls made to
  the file system.
\<close>

record 'c world =
  store :: 'c
  log :: "log_entry list"
  fs_calls :: "fs_call list"

definition logger :: "LogLevel \<Rightarrow> string \<Rightarrow> log_meta option \<Rightarrow> 'c world \<Rightarrow> 'c world" where
  "logger lv msg m w = w\<lparr>log := log w @ [\<lparr>level = lv, logged = msg, meta = m\<rparr>]\<rparr>"

section \<open>The codebase index (engines/CodebaseIndexer.ts)\<close>

record 'c CodebaseIndexer =
  foundationRepoPath :: string
  cache :: "'c CacheInterface"

text \<open>
  \<^verbatim>\<open>content.match(/\[data-([a-z-]+)\]/)\<close>, group 1 of the first match: after
  \<^verbatim>\<open>[data-\<close> the longest run of lower-case letters and dashes, not empty and
  followed by \<^verbatim>\<open>]\<close>.
\<close>

definition isLowerDash :: "char \<Rightarrow> bool" where
  "isLowerDash c = (isLowerAZ c \<or> c = CHR ''-'')"

fun data_selector :: "string \<Rightarrow> string option" where
  "data_selector [] = None"
| "data_selector (c # cs) =
     (case strip_prefix ''[data-'' (c # cs) of
        Some r \<Rightarrow>
          (if takeWhile isLowerDash r \<noteq> []
              \<and> (case dropWhile isLowerDash r of d # _ \<Rightarrow> d = CHR '']'' | [] \<Rightarrow> False)
           then Some (takeWhile isLowerDash r)
           else data_selector cs)
      | None \<Rightarrow> data_selector cs)"

text \<open>
  \<^verbatim>\<open>docs[key] || fallback\<close>, where \<open>docs\<close> gives the names the extractor has put into
  its object. A name that was not put there is looked up in \<^verbatim>\<open>Object.prototype\<close>,
  whose members are all truthy; \<^verbatim>\<open>__proto__\<close> cannot be put there and always gives
  the prototype.
\<close>

definition object_members :: "string list" where
  "object_members =
     [''constructor'', ''__defineGetter__'', ''__defineSetter__'', ''hasOwnProperty'',
      ''__lookupGetter__'', ''__lookupSetter__'', ''isPrototypeOf'', ''propertyIsEnumerable'',
      ''toString'', ''valueOf'', ''__proto__'', ''toLocaleString'']"

definition or_else :: "(string \<Rightarrow> string option) \<Rightarrow> string \<Rightarrow> string \<Rightarrow> description" where
  "or_else docs key fallback =
     (case (if key = ''__proto__'' then None else docs key) of
        Some s \<Rightarrow> Text (if truthy s then s else fallback)
      | None \<Rightarrow> (if key \<in> set object_members then Inherited key else Text fallback))"

text \<open>
  \<^verbatim>\<open>parsePluginFile\<close>: the read and the parse may throw; a file without a class name
  gives null. The result is a function of the file system; the read it makes is
  recorded by the loop that calls it.
\<close>

definition parsePluginFile ::
  "'c CodebaseIndexer \<Rightarrow> libs \<Rightarrow> filesystem \<Rightarrow> string \<Rightarrow> error + FoundationPlugin option" where
  "parsePluginFile idx L F filePath =
     (case readFile F filePath of
        Inl e \<Rightarrow> Inl e
      | Inr content \<Rightarrow>
          (case parsePlugin L content of
             Inl e \<Rightarrow> Inl e
           | Inr parsed \<Rightarrow>
               (if \<not> truthy (className parsed) then Inr None
                else
                  (let filename = path_basename L filePath ''.js'';
                       sl = str_replace filename ''foundation.'' [];
                       sel = (case data_selector content of
                                Some m \<Rightarrow> ''[data-'' @ m @ '']''
                              | None \<Rightarrow> ''[data-'' @ sl @ '']'')
                   in Inr (Some
                         \<lparr>name = className parsed, slug = sl,
                          plugin_path = path_relative L (foundationRepoPath idx) filePath,
                          plugin_description =
                            or_else (extractJSDoc L content) (className parsed)
                              (className parsed @ '' plugin''),
                          plugin_className = className parsed,
                          selector = sel,
                          supportsNesting =
                            (str_includes content ''nested'' \<or> str_includes content ''Nest''),
                          deprecatedInVersion = None,
                          plugin_docs = ''https://get.foundation/sites/docs/'' @ sl @ ''.html''\<rparr>)))))"

text \<open>The files \<^verbatim>\<open>indexPlugins\<close> skips by name.\<close>

definition skipped :: "string \<Rightarrow> bool" where
  "skipped file =
     (str_includes file ''foundation.util.'' \<or> str_includes file ''foundation.core.''
      \<or> str_includes file ''foundation.js'')"

text \<open>One round of the loop of \<^verbatim>\<open>indexPlugins\<close> with its \<^verbatim>\<open>try\<close> and \<^verbatim>\<open>catch\<close>.\<close>

definition reading :: "string \<Rightarrow> 'c world \<Rightarrow> 'c world" where
  "reading filePath w = w\<lparr>fs_calls := fs_calls w @ [ReadFile filePath]\<rparr>"

definition plugin_step ::
  "'c CodebaseIndexer \<Rightarrow> libs \<Rightarrow> filesystem \<Rightarrow> FoundationPlugin list \<times> 'c world \<Rightarrow> string
     \<Rightarrow> FoundationPlugin list \<times> 'c world" where
  "plugin_step idx L F st file =
     (if skipped file then st
      else
        (case parsePluginFile idx L F file of
           Inl e \<Rightarrow>
             (fst st, logger LogWarn (''Failed to parse plugin file: '' @ file)
                        (Some (Fields [(''error'', error_message e)])) (reading file (snd st)))
         | Inr None \<Rightarrow> (fst st, reading file (snd st))
         | Inr (Some plugin) \<Rightarrow> (fst st @ [plugin], reading file (snd st))))"

definition indexPlugins ::
  "'c CodebaseIndexer \<Rightarrow> libs \<Rightarrow> filesystem \<Rightarrow> 'c world
     \<Rightarrow> (error + FoundationPlugin list) \<times> 'c world" where
  "indexPlugins idx L F w =
     (let jsDir = path_join L (foundationRepoPath idx) ''js'';
          w1 = w\<lparr>fs_calls := fs_calls w @ [FindFiles jsDir ''foundation.*.js'']\<rparr>
      in case findFiles F jsDir ''foundation.*.js'' of
           Inl e \<Rightarrow> (Inl e, w1)
         | Inr pluginFiles \<Rightarrow>
             (let st = foldl (plugin_step idx L F) ([], w1) pluginFiles
              in (Inr (fst st), snd st)))"

text \<open>
  \<^verbatim>\<open>c.toUpperCase()\<close> of one character, as a string: a-z and the accented small
  letters 0xE0-0xFE (without the division sign 0xF7) move down by 32, and the sharp s
  0xDF becomes \<^verbatim>\<open>SS\<close>. The capitals of 0xB5 and 0xFF lie outside the Latin-1 range
  of the strings here; these two characters are left as they are.
\<close>

definition toUpperCase_char :: "char \<Rightarrow> string" where
  "toUpperCase_char c =
     (let n = (of_char c :: nat) in
      if n = 223 then ''SS''
      else if (97 \<le> n \<and> n \<le> 122) \<or> (224 \<le> n \<and> n \<le> 254 \<and> n \<noteq> 247)
      then [char_of (n - 32)] else [c])"

definition capitalize :: "string \<Rightarrow> string" where
  "capitalize word = (case word of [] \<Rightarrow> [] | c # cs \<Rightarrow> toUpperCase_char c @ cs)"

fun join :: "string \<Rightarrow> string list \<Rightarrow> string" where
  "join sep [] = []"
| "join sep [x] = x"
| "join sep (x # y # ys) = x @ sep @ join sep (y # ys)"

definition parseComponentFile ::
  "'c CodebaseIndexer \<Rightarrow> libs \<Rightarrow> filesystem \<Rightarrow> string \<Rightarrow> error + FoundationComponent" where
  "parseComponentFile idx L F filePath =
     (case readFile F filePath of
        Inl e \<Rightarrow> Inl e
      | Inr content \<Rightarrow>
          (case parseComponent L content of
             Inl e \<Rightarrow> Inl e
           | Inr parsed \<Rightarrow>
               (let filename = path_basename L filePath ''.scss'';
                    sl = (if startsWith filename ''_'' then tl filename else filename);
                    nm = join '' '' (map capitalize (split_char (CHR ''-'') sl))
                in Inr
                     \<lparr>name = nm, slug = sl,
                      component_scssPath = path_relative L (foundationRepoPath idx) filePath,
                      component_description =
                        or_else (extractSassDoc L content) sl (nm @ '' component''),
                      component_mixins = map mixin_name (mixins parsed),
                      cssClasses = classes parsed,
                      component_docs = ''https://get.foundation/sites/docs/'' @ sl @ ''.html''\<rparr>)))"

definition component_step ::
  "'c CodebaseIndexer \<Rightarrow> libs \<Rightarrow> filesystem \<Rightarrow> FoundationComponent list \<times> 'c world \<Rightarrow> string
     \<Rightarrow> FoundationComponent list \<times> 'c world" where
  "component_step idx L F st file =
     (case parseComponentFile idx L F file of
        Inl e \<Rightarrow>
          (fst st, logger LogWarn (''Failed to parse component file: '' @ file)
                     (Some (Fields [(''error'', error_message e)])) (reading file (snd st)))
      | Inr component \<Rightarrow> (fst st @ [component], reading file (snd st)))"

definition indexComponents ::
  "'c CodebaseIndexer \<Rightarrow> libs \<Rightarrow> filesystem \<Rightarrow> 'c world
     \<Rightarrow> (error + FoundationComponent list) \<times> 'c world" where
  "indexComponents idx L F w =
     (let scssDir = path_join L (foundationRepoPath idx) ''scss/components'';
          w1 = w\<lparr>fs_calls := fs_calls w @ [FindFiles scssDir ''*.scss'']\<rparr>
      in case findFiles F scssDir ''*.scss'' of
           Inl e \<Rightarrow> (Inl e, w1)
         | Inr componentFiles \<Rightarrow>
             (let st = foldl (component_step idx L F) ([], w1) componentFiles
              in (Inr (fst st), snd st)))"

text \<open>
  The name of a utility: \<^verbatim>\<open>slug.split(/(?=[A-Z])/).join(' ')\<close> puts a space before
  every capital A-Z but the first character, and \<^verbatim>\<open>replace(/^\w/, ...)\<close> turns a
  first word character into its capital.
\<close>

definition isWordChar :: "char \<Rightarrow> bool" where
  "isWordChar c = (isAlnum c \<or> c = CHR ''_'')"

definition utility_name :: "string \<Rightarrow> string" where
  "utility_name sl =
     (case sl of
        [] \<Rightarrow> []
      | c # cs \<Rightarrow>
          (if isWordChar c then toUpperCase_char c else [c])
            @ concat (map (\<lambda>d. if isUpperAZ d then [CHR '' '', d] else [d]) cs))"

definition parseUtilityFile ::
  "'c CodebaseIndexer \<Rightarrow> libs \<Rightarrow> filesystem \<Rightarrow> string \<Rightarrow> error + FoundationUtility" where
  "parseUtilityFile idx L F filePath =
     (case readFile F filePath of
        Inl e \<Rightarrow> Inl e
      | Inr content \<Rightarrow>
          (case parsePlugin L content of
             Inl e \<Rightarrow> Inl e
           | Inr parsed \<Rightarrow>
               (let filename = path_basename L filePath ''.js'';
                    sl = str_replace filename ''foundation.util.'' [];
                    nm = utility_name sl
                in Inr
                     \<lparr>name = nm, slug = sl,
                      utility_path = path_relative L (foundationRepoPath idx) filePath,
                      utility_description =
                        or_else (extractJSDoc L content) (className parsed)
                          (nm @ '' utility''),
                      utility_exports = exports parsed\<rparr>)))"

text \<open>
  One round of the loop of \<^verbatim>\<open>indexUtilities\<close>: its \<^verbatim>\<open>catch\<close> hands the caught error
  itself to the logger.
\<close>

definition utility_step ::
  "'c CodebaseIndexer \<Rightarrow> libs \<Rightarrow> filesystem \<Rightarrow> FoundationUtility list \<times> 'c world \<Rightarrow> string
     \<Rightarrow> FoundationUtility list \<times> 'c world" where
  "utility_step idx L F st file =
     (case parseUtilityFile idx L F file of
        Inl e \<Rightarrow>
          (fst st, logger LogWarn (''Failed to parse utility file: '' @ file)
                     (Some (Thrown e)) (reading file (snd st)))
      | Inr utility \<Rightarrow> (fst st @ [utility], reading file (snd st)))"

definition indexUtilities ::
  "'c CodebaseIndexer \<Rightarrow> libs \<Rightarrow> filesystem \<Rightarrow> 'c world
     \<Rightarrow> (error + FoundationUtility list) \<times> 'c world" where
  "indexUtilities idx L F w =
     (let jsDir = path_join L (foundationRepoPath idx) ''js'';
          w1 = w\<lparr>fs_calls := fs_calls w @ [FindFiles jsDir ''foundation.util.*.js'']\<rparr>
      in case findFiles F jsDir ''foundation.util.*.js'' of
           Inl e \<Rightarrow> (Inl e, w1)
         | Inr utilityFiles \<Rightarrow>
             (let st = foldl (utility_step idx L F) ([], w1) utilityFiles
              in (Inr (fst st), snd st)))"

definition indexGrids :: "FoundationGrid list" where
  "indexGrids =
     [\<lparr>name = ''XY Grid'', slug = ''xy-grid'', grid_scssPath = ''scss/xy-grid/'',
       grid_description = ''Modern CSS Grid and Flexbox-based layout system''\<rparr>,
      \<lparr>name = ''Float Grid'', slug = ''float-grid'', grid_scssPath = ''scss/grid/'',
       grid_description = ''Classic float-based grid system''\<rparr>]"

text \<open>A number in a template literal: its decimal digits.\<close>

definition digit_char :: "nat \<Rightarrow> char" where
  "digit_char d = char_of (48 + d)"

function string_of_nat :: "nat \<Rightarrow> string" where
  "string_of_nat n =
     (let last_digit = [digit_char (n mod 10)] in
      if n < 10 then last_digit else string_of_nat (n div 10) @ last_digit)"
  by pat_completeness auto
termination
  by (relation "measure id") auto

declare string_of_nat.simps [simp del]

text \<open>
  \<^verbatim>\<open>buildIndex\<close>. The lookup in the cache and the store into it are awaited outside
  any \<^verbatim>\<open>try\<close>: when the cache rejects, the build rejects. The four walks of
  \<^verbatim>\<open>Promise.all\<close> each fill a list of their own from the same file system; they are
  run here one after the other, and a rejected walk rejects the build after all of
  them have run. Nothing below depends on the order in which the walks interleave.
\<close>

definition buildIndex ::
  "'c CodebaseIndexer \<Rightarrow> libs \<Rightarrow> filesystem \<Rightarrow> 'c world \<Rightarrow> (error + FoundationIndex) \<times> 'c world" where
  "buildIndex idx L F w =
     (let w0 = logger LogInfo ''Building Foundation codebase index...'' None w in
      case cache_get (cache idx) (store w0) pluginIndex of
        Inl e \<Rightarrow> (Inl e, w0)
      | Inr (Some cached) \<Rightarrow> (Inr cached, logger LogDebug ''Returning cached index'' None w0)
      | Inr None \<Rightarrow>
          (let rp = indexPlugins idx L F w0;
               rc = indexComponents idx L F (snd rp);
               ru = indexUtilities idx L F (snd rc);
               w3 = snd ru
           in case fst rp of
                Inl e \<Rightarrow> (Inl e, w3)
              | Inr ps \<Rightarrow>
                  (case fst rc of
                     Inl e \<Rightarrow> (Inl e, w3)
                   | Inr cs \<Rightarrow>
                       (case fst ru of
                          Inl e \<Rightarrow> (Inl e, w3)
                        | Inr us \<Rightarrow>
                            (let index = \<lparr>plugins = ps, components = cs, utilities = us,
                                          grids = indexGrids\<rparr>
                             in case cache_set (cache idx) (store w3) pluginIndex index of
                                  Inl e \<Rightarrow> (Inl e, w3)
                                | Inr c \<Rightarrow>
                                    (Inr index,
                                     logger LogInfo
                                       (''Index built: '' @ string_of_nat (length ps)
                                          @ '' plugins, '' @ string_of_nat (length cs)
                                          @ '' components'')
                                       None (w3\<lparr>store := c\<rparr>)))))))"


section \<open>The refactoring analyzer (engines/RefactoringAnalyzer.ts)\<close>

datatype sourceType = CustomPlugin | CustomComponent

record Suggestion = named +
  similarity :: int
  reasoning :: string

text \<open>
  The analysis without its three fixed texts (\<^verbatim>\<open>codeAdaptation\<close>,
  \<^verbatim>\<open>recommendedApproach\<close>, \<^verbatim>\<open>integrationGuide\<close>): they are templates filled with the
  first suggestion's name or slug by functions that cannot throw.
\<close>

record RefactoringAnalysis =
  analysed :: sourceType
  suggestedFoundationComponents :: "Suggestion list"
  migrationSteps :: "string list"
  breakingChanges :: "string list"

definition hasFeature :: "string \<Rightarrow> string list \<Rightarrow> bool" where
  "hasFeature code keywords = list_ex (\<lambda>keyword. str_includes (toLowerCase code) keyword) keywords"

text \<open>The feature objects, as the lists of their entries in insertion order.\<close>

definition plugin_features :: "string \<Rightarrow> (string \<times> bool) list" where
  "plugin_features sourceCode =
     [(''hasDropdown'', hasFeature sourceCode [''dropdown'', ''menu'', ''select'']),
      (''hasAccordion'', hasFeature sourceCode [''accordion'', ''toggle'', ''expand'']),
      (''hasModal'', hasFeature sourceCode [''modal'', ''dialog'', ''overlay'']),
      (''hasCarousel'', hasFeature sourceCode [''carousel'', ''slider'', ''rotation'']),
      (''hasTooltip'', hasFeature sourceCode [''tooltip'', ''popover'', ''hint'']),
      (''hasForm'', hasFeature sourceCode [''form'', ''validate'', ''validation''])]"

definition component_features :: "string \<Rightarrow> (string \<times> bool) list" where
  "component_features sourceCode =
     [(''hasButton'', hasFeature sourceCode [''button'', ''btn'']),
      (''hasCard'', hasFeature sourceCode [''card'', ''panel'', ''box'']),
      (''hasBadge'', hasFeature sourceCode [''badge'', ''label'', ''tag'']),
      (''hasAlert'', hasFeature sourceCode [''alert'', ''message'', ''notification'']),
      (''hasCallout'', hasFeature sourceCode [''callout'', ''notice'', ''info'']),
      (''hasGrid'', hasFeature sourceCode [''grid'', ''layout'', ''column''])]"

definition featureToComponent :: "(string \<times> string \<times> string) list" where
  "featureToComponent =
     [(''hasDropdown'', ''Dropdown'', ''dropdown''),
      (''hasAccordion'', ''Accordion'', ''accordion''),
      (''hasModal'', ''Reveal'', ''reveal''),
      (''hasCarousel'', ''Orbit'', ''orbit''),
      (''hasTooltip'', ''Tooltip'', ''tooltip''),
      (''hasForm'', ''Abide'', ''abide''),
      (''hasButton'', ''Button'', ''button''),
      (''hasCard'', ''Card'', ''card''),
      (''hasBadge'', ''Badge'', ''badge''),
      (''hasAlert'', ''Callout'', ''callout''),
      (''hasCallout'', ''Callout'', ''callout''),
      (''hasGrid'', ''XY Grid'', ''xy-grid'')]"

text \<open>\<^verbatim>\<open>feature.replace(/^has/, '')\<close>.\<close>

definition strip_has :: "string \<Rightarrow> string" where
  "strip_has feature = (case strip_prefix ''has'' feature of Some r \<Rightarrow> r | None \<Rightarrow> feature)"

text \<open>The callback of \<^verbatim>\<open>map\<close>: the suggestion of a feature, or null.\<close>

definition suggestion_of :: "string \<Rightarrow> Suggestion option" where
  "suggestion_of feature =
     (case map_of featureToComponent feature of
        Some (n, s) \<Rightarrow>
          Some \<lparr>name = n, slug = s, similarity = 85,
                reasoning = ''Detected '' @ toLowerCase (strip_has feature) @ '' functionality''\<rparr>
      | None \<Rightarrow> None)"

definition findSimilarComponents ::
  "(string \<times> bool) list \<Rightarrow> 'a named_scheme list \<Rightarrow> string option \<Rightarrow> Suggestion list" where
  "findSimilarComponents features comps foundationTarget =
     (case (if truthy_opt foundationTarget
            then find (\<lambda>c. Some (slug c) = foundationTarget) comps else None) of
        Some target \<Rightarrow>
          [\<lparr>name = name target, slug = slug target, similarity = 100,
            reasoning = ''User specified target: '' @ name target\<rparr>]
      | None \<Rightarrow> take 3 (List.map_filter suggestion_of (map fst (filter snd features))))"

definition plugin_steps :: "string list" where
  "plugin_steps =
     [''1. Review Foundation plugin architecture and lifecycle methods'',
      ''2. Extend Foundation Plugin base class instead of custom base'',
      ''3. Implement required methods (_init, _destroy)'',
      ''4. Use Foundation Keyboard utility for keyboard events'',
      ''5. Replace custom events with Foundation event namespacing (.zf.pluginname)'',
      ''6. Use Foundation data attributes for configuration'',
      ''7. Implement accessibility with ARIA attributes'',
      ''8. Add unit tests following Foundation test patterns'']"

definition generatePluginMigrationSteps :: "Suggestion list \<Rightarrow> string list" where
  "generatePluginMigrationSteps suggs =
     (case suggs of
        [] \<Rightarrow> plugin_steps
      | s # _ \<Rightarrow>
          (''0. Study '' @ name s @ '' plugin as reference implementation'') # plugin_steps)"

definition component_steps :: "string list" where
  "component_steps =
     [''1. Review Foundation component structure and mixins'',
      ''2. Align variable naming with Foundation conventions ($component-name)'',
      ''3. Convert to Foundation mixin-based approach'',
      ''4. Implement foundation-{component} mixin for inclusion'',
      ''5. Add color and size variations using Foundation palette'',
      ''6. Use rem-calc() for responsive spacing'',
      ''7. Ensure accessibility with semantic HTML'',
      ''8. Add Sass tests using sass-true framework'']"

definition generateComponentMigrationSteps :: "Suggestion list \<Rightarrow> string list" where
  "generateComponentMigrationSteps suggs =
     (case suggs of
        [] \<Rightarrow> component_steps
      | s # _ \<Rightarrow> (''0. Study '' @ name s @ '' component as reference'') # component_steps)"

definition identifyPluginBreakingChanges :: "string \<Rightarrow> string list" where
  "identifyPluginBreakingChanges code =
     (if str_includes code ''addEventListener''
      then [''Replace addEventListener with jQuery .on() method''] else [])
     @ (if str_includes code ''classList''
        then [''Use jQuery addClass/removeClass instead of classList''] else [])
     @ (if str_includes code ''dispatchEvent''
        then [''Use jQuery .trigger() for events instead of dispatchEvent''] else [])
     @ (if \<not> str_includes code ''destroy''
        then [''Must implement _destroy() for proper cleanup''] else [])
     @ (if \<not> str_includes code ''ARIA'' \<and> \<not> str_includes code ''aria-''
        then [''Add ARIA attributes for accessibility compliance''] else [])
     @ [''Data attribute format changes to [data-{slug}]'',
        ''Selector changes to use Foundation data attributes'',
        ''Event namespace changes to .zf.{pluginname}'']"

definition identifyComponentBreakingChanges :: "string \<Rightarrow> string list" where
  "identifyComponentBreakingChanges code =
     (if str_includes code ''px'' \<and> \<not> str_includes code ''rem''
      then [''Replace px units with rem-calc() for responsive design''] else [])
     @ (if \<not> str_includes code ''!default''
        then [''Add !default flag to all variables for customization''] else [])
     @ (if \<not> str_includes code ''@mixin''
        then [''Organize styles into reusable mixins''] else [])
     @ (if \<not> str_includes code ''@include''
        then [''Include mixin in main component mixin''] else [])
     @ (if str_includes code ''hardcoded colors''
        then [''Use Foundation color palette variables instead of hardcoded colors''] else [])
     @ [''CSS class naming may change to align with Foundation conventions'',
        ''Layout assumptions may conflict with Foundation grid system'']"

text \<open>
  \<^verbatim>\<open>analyzePluginForRefactoring\<close>: the parse comes first; whatever is thrown inside
  the \<^verbatim>\<open>try\<close> block is logged and thrown again as it is.
\<close>

definition analyzePluginForRefactoring ::
  "'c CodebaseIndexer \<Rightarrow> libs \<Rightarrow> filesystem \<Rightarrow> string \<Rightarrow> string option \<Rightarrow> 'c world
     \<Rightarrow> (error + RefactoringAnalysis) \<times> 'c world" where
  "analyzePluginForRefactoring idx L F sourceCode foundationTarget w =
     (case parsePlugin L sourceCode of
        Inl e \<Rightarrow>
          (Inl e, logger LogError ''Failed to analyze plugin for refactoring''
                    (Some (Thrown e)) w)
      | Inr parsed \<Rightarrow>
          (case buildIndex idx L F w of
             (Inl e, w1) \<Rightarrow>
               (Inl e, logger LogError ''Failed to analyze plugin for refactoring''
                         (Some (Thrown e)) w1)
           | (Inr index, w1) \<Rightarrow>
               (let suggs = findSimilarComponents (plugin_features sourceCode)
                              (plugins index) foundationTarget
                in (Inr \<lparr>analysed = CustomPlugin,
                          suggestedFoundationComponents = suggs,
                          migrationSteps = generatePluginMigrationSteps suggs,
                          breakingChanges = identifyPluginBreakingChanges sourceCode\<rparr>,
                    w1))))"

definition analyzeComponentForRefactoring ::
  "'c CodebaseIndexer \<Rightarrow> libs \<Rightarrow> filesystem \<Rightarrow> string \<Rightarrow> string option \<Rightarrow> 'c world
     \<Rightarrow> (error + RefactoringAnalysis) \<times> 'c world" where
  "analyzeComponentForRefactoring idx L F sourceCode foundationTarget w =
     (case parseComponent L sourceCode of
        Inl e \<Rightarrow>
          (Inl e, logger LogError ''Failed to analyze component for refactoring''
                    (Some (Thrown e)) w)
      | Inr parsed \<Rightarrow>
          (case buildIndex idx L F w of
             (Inl e, w1) \<Rightarrow>
               (Inl e, logger LogError ''Failed to analyze component for refactoring''
                         (Some (Thrown e)) w1)
           | (Inr index, w1) \<Rightarrow>
               (let suggs = findSimilarComponents (component_features sourceCode)
                              (components index) foundationTarget
                in (Inr \<lparr>analysed = CustomComponent,
                          suggestedFoundationComponents = suggs,
                          migrationSteps = generateComponentMigrationSteps suggs,
                          breakingChanges = identifyComponentBreakingChanges sourceCode\<rparr>,
                    w1))))"

definition sourceType_text :: "sourceType \<Rightarrow> string" where
  "sourceType_text t = (case t of CustomPlugin \<Rightarrow> ''custom-plugin'' | CustomComponent \<Rightarrow> ''custom-component'')"

definition analyzeForRefactoring ::
  "'c CodebaseIndexer \<Rightarrow> libs \<Rightarrow> filesystem \<Rightarrow> string \<Rightarrow> sourceType \<Rightarrow> string option \<Rightarrow> 'c world
     \<Rightarrow> (error + RefactoringAnalysis) \<times> 'c world" where
  "analyzeForRefactoring idx L F sourceCode srcType foundationTarget w =
     (let w0 = logger LogInfo ''Analyzing code for Foundation refactoring''
                 (Some (Fields [(''sourceType'', sourceType_text srcType)])) w
      in if srcType = CustomPlugin
         then analyzePluginForRefactoring idx L F sourceCode foundationTarget w0
         else analyzeComponentForRefactoring idx L F sourceCode foundationTarget w0)"

section \<open>Worked inputs\<close>

text \<open>
  A plugin source with its syntax tree, a source with an exported and a bare class, a
  source without a class, a stylesheet with two rules, and a repository of ten plugin
  files of which one does not parse. The grammars are tables from these texts to
  their trees; every other text is a syntax error.
\<close>

definition tabs_code :: string where
  "tabs_code = ''/** @class */ export class Tabs extends Plugin { constructor(){} _init(){ el.trigger('open.zf.tabs'); el.focus() } _destroy(){} } // aria- Keyboard''"

definition tabs_ast :: "node list" where
  "tabs_ast =
     [ExportNamedDeclaration (Some (ClassDeclaration (Some ''Tabs'') (Some (Identifier ''Plugin''))
        [ClassMethod (Identifier ''constructor'') [],
         ClassMethod (Identifier ''_init'')
           [CallExpression (MemberExpression (Identifier ''el'') (Identifier ''trigger''))
              [StringLiteral ''open.zf.tabs''],
            CallExpression (MemberExpression (Identifier ''el'') (Identifier ''focus'')) []],
         ClassMethod (Identifier ''_destroy'') []]))]"

definition two_classes_code :: string where
  "two_classes_code = ''export class Baz {} class Foo extends Bar {}''"

definition two_classes_ast :: "node list" where
  "two_classes_ast =
     [ExportNamedDeclaration (Some (ClassDeclaration (Some ''Baz'') None [])),
      ClassDeclaration (Some ''Foo'') (Some (Identifier ''Bar'')) []]"

definition plain_code :: string where
  "plain_code = ''export const version = 6''"

definition plain_ast :: "node list" where
  "plain_ast = [ExportNamedDeclaration (Some (OtherNode [OtherNode [Identifier ''version'']]))]"

definition cards_code :: string where
  "cards_code = ''.card { } .badge { }''"

definition cards_tree :: "css_node list" where
  "cards_tree = [Rule [''.card''] [], Rule [''.badge''] []]"

definition example_babel :: "string \<Rightarrow> string + node list" where
  "example_babel c =
     (if c = tabs_code then Inr tabs_ast
      else if c = two_classes_code then Inr two_classes_ast
      else if c = plain_code then Inr plain_ast
      else Inl ''Unexpected token'')"

definition example_postcss :: "string \<Rightarrow> string + css_node list" where
  "example_postcss c = (if c = cards_code then Inr cards_tree else Inl ''Unclosed block'')"

definition example_basename :: "string \<Rightarrow> string \<Rightarrow> string" where
  "example_basename p ext =
     (let base = rev (takeWhile (\<lambda>c. c \<noteq> CHR ''/'') (rev p)) in
      case strip_prefix (rev ext) (rev base) of Some r \<Rightarrow> rev r | None \<Rightarrow> base)"

definition example_relative :: "string \<Rightarrow> string \<Rightarrow> string" where
  "example_relative from to = (case strip_prefix (from @ ''/'') to of Some r \<Rightarrow> r | None \<Rightarrow> to)"

definition example_libs :: libs where
  "example_libs =
     \<lparr>babelParse = example_babel,
      postcssParse = example_postcss,
      path_join = (\<lambda>a b. a @ ''/'' @ b),
      path_basename = example_basename,
      path_relative = example_relative,
      extractJSDoc = (\<lambda>content nm. None),
      extractSassDoc = (\<lambda>content nm. None)\<rparr>"

definition plugin_files :: "string list" where
  "plugin_files =
     [''/repo/js/foundation.p1.js'', ''/repo/js/foundation.p2.js'',
      ''/repo/js/foundation.p3.js'', ''/repo/js/foundation.broken.js'',
      ''/repo/js/foundation.p4.js'', ''/repo/js/foundation.p5.js'',
      ''/repo/js/foundation.p6.js'', ''/repo/js/foundation.p7.js'',
      ''/repo/js/foundation.p8.js'', ''/repo/js/foundation.p9.js'']"

definition example_fs :: filesystem where
  "example_fs =
     \<lparr>fs_access = (\<lambda>p. p \<in> set plugin_files),
      fs_readFile = (\<lambda>p. if p = ''/repo/js/foundation.broken.js'' then Inr ''class {''
                         else if p \<in> set plugin_files then Inr tabs_code
                         else Inl ''ENOENT: no such file or directory''),
      glob = (\<lambda>dir pat. if dir = ''/repo/js'' \<and> pat = ''foundation.*.js''
                         then Inr plugin_files else Inr [])\<rparr>"

text \<open>A repository whose only stylesheet is the partial \<^verbatim>\<open>_.scss\<close>.\<close>

definition odd_fs :: filesystem where
  "odd_fs =
     \<lparr>fs_access = (\<lambda>p. p = ''/repo/scss/components/_.scss''),
      fs_readFile = (\<lambda>p. if p = ''/repo/scss/components/_.scss'' then Inr cards_code
                         else Inl ''ENOENT: no such file or directory''),
      glob = (\<lambda>dir pat. if dir = ''/repo/scss/components'' \<and> pat = ''*.scss''
                         then Inr [''/repo/scss/components/_.scss''] else Inr [])\<rparr>"

text \<open>
  A repository with every kind of file: among the scripts the core file and two
  utilities, which the plugin walk skips by name, a plugin, a script that cannot be
  read and a script without a class; a utility and one that has vanished since the
  directory was listed; a stylesheet, one with an unclosed block and one that cannot
  be read.
\<close>

definition mixed_scripts :: "string list" where
  "mixed_scripts =
     [''/repo/js/foundation.core.js'', ''/repo/js/foundation.tabs.js'',
      ''/repo/js/foundation.locked.js'', ''/repo/js/foundation.plain.js'',
      ''/repo/js/foundation.util.box.js'', ''/repo/js/foundation.util.gone.js'']"

definition mixed_utilities :: "string list" where
  "mixed_utilities = [''/repo/js/foundation.util.box.js'', ''/repo/js/foundation.util.gone.js'']"

definition mixed_stylesheets :: "string list" where
  "mixed_stylesheets =
     [''/repo/scss/components/_card.scss'', ''/repo/scss/components/_broken.scss'',
      ''/repo/scss/components/_locked.scss'']"

definition mixed_fs :: filesystem where
  "mixed_fs =
     \<lparr>fs_access = (\<lambda>p. p \<in> set mixed_scripts \<or> p \<in> set mixed_stylesheets),
      fs_readFile =
        (\<lambda>p. if p = ''/repo/js/foundation.core.js'' \<or> p = ''/repo/js/foundation.tabs.js''
               then Inr tabs_code
             else if p = ''/repo/js/foundation.plain.js'' then Inr plain_code
             else if p = ''/repo/js/foundation.util.box.js'' then Inr two_classes_code
             else if p = ''/repo/scss/components/_card.scss'' then Inr cards_code
             else if p = ''/repo/scss/components/_broken.scss'' then Inr ''.card {''
             else if p = ''/repo/js/foundation.util.gone.js''
               then Inl ''ENOENT: no such file or directory''
             else Inl ''EACCES: permission denied''),
      glob = (\<lambda>dir pat. if dir = ''/repo/js'' \<and> pat = ''foundation.*.js'' then Inr mixed_scripts
                         else if dir = ''/repo/js'' \<and> pat = ''foundation.util.*.js''
                           then Inr mixed_utilities
                         else if dir = ''/repo/scss/components'' \<and> pat = ''*.scss''
                           then Inr mixed_stylesheets
                         else Inr [])\<rparr>"

definition example_indexer :: "(string \<rightharpoonup> FoundationIndex) CodebaseIndexer" where
  "example_indexer = \<lparr>foundationRepoPath = ''/repo'', cache = MemoryCache\<rparr>"

text \<open>A cache backend that answers every lookup and rejects every write.\<close>

definition read_only :: error where
  "read_only = OtherError (''READONLY You can'' @ [CHR 0x27] @ ''t write against a read only replica.'')"

definition ReadOnlyCache :: "(string \<rightharpoonup> FoundationIndex) CacheInterface" where
  "ReadOnlyCache =
     \<lparr>cache_get = (\<lambda>c k. Inr (c k)),
      cache_set = (\<lambda>c k v. Inl read_only),
      cache_delete = (\<lambda>c k. Inl read_only)\<rparr>"

definition replica_indexer :: "(string \<rightharpoonup> FoundationIndex) CodebaseIndexer" where
  "replica_indexer = \<lparr>foundationRepoPath = ''/repo'', cache = ReadOnlyCache\<rparr>"

definition fresh_world :: "(string \<rightharpoonup> FoundationIndex) world" where
  "fresh_world = \<lparr>store = Map.empty, log = [], fs_calls = []\<rparr>"

section \<open>Vocabulary of the properties\<close>

text \<open>
  What the two class visitors can read off a visited node: the name and the
  identifier superclass of an exported class declaration, and of any class
  declaration.
\<close>

definition exported_name :: "node \<Rightarrow> string option" where
  "exported_name n =
     (case n of ExportNamedDeclaration (Some (ClassDeclaration (Some c) _ _)) \<Rightarrow> Some c | _ \<Rightarrow> None)"

definition exported_parent :: "node \<Rightarrow> string option" where
  "exported_parent n =
     (case n of
        ExportNamedDeclaration (Some (ClassDeclaration _ (Some (Identifier p)) _)) \<Rightarrow> Some p
      | _ \<Rightarrow> None)"

definition declared_name :: "node \<Rightarrow> string option" where
  "declared_name n = (case n of ClassDeclaration (Some c) _ _ \<Rightarrow> Some c | _ \<Rightarrow> None)"

definition declared_parent :: "node \<Rightarrow> string option" where
  "declared_parent n =
     (case n of ClassDeclaration _ (Some (Identifier p)) _ \<Rightarrow> Some p | _ \<Rightarrow> None)"

definition exported_names :: "node list \<Rightarrow> string list" where
  "exported_names vs = List.map_filter exported_name vs"

definition exported_parents :: "node list \<Rightarrow> string list" where
  "exported_parents vs = List.map_filter exported_parent vs"

definition declared_names :: "node list \<Rightarrow> string list" where
  "declared_names vs = List.map_filter declared_name vs"

definition declared_parents :: "node list \<Rightarrow> string list" where
  "declared_parents vs = List.map_filter declared_parent vs"

text \<open>A declaration of a Sass variable.\<close>

definition is_variable :: "css_node \<Rightarrow> bool" where
  "is_variable n = (case n of Declaration p v _ \<Rightarrow> startsWith p ''$'' | _ \<Rightarrow> False)"

text \<open>
  A file read and parsed as a script, or as a stylesheet: what the parser returns, or
  the error of the read or of the parse. A script gives a plugin when the plugin walk
  does not skip it by name and a class name was found in it.
\<close>

definition script_of :: "libs \<Rightarrow> filesystem \<Rightarrow> string \<Rightarrow> error + ParsedPlugin" where
  "script_of L F file =
     (case readFile F file of Inl e \<Rightarrow> Inl e | Inr content \<Rightarrow> parsePlugin L content)"

definition stylesheet_of :: "libs \<Rightarrow> filesystem \<Rightarrow> string \<Rightarrow> error + ParsedComponent" where
  "stylesheet_of L F file =
     (case readFile F file of Inl e \<Rightarrow> Inl e | Inr content \<Rightarrow> parseComponent L content)"

definition gives_plugin :: "libs \<Rightarrow> filesystem \<Rightarrow> string \<Rightarrow> bool" where
  "gives_plugin L F file =
     (\<not> skipped file
      \<and> (case script_of L F file of Inr parsed \<Rightarrow> truthy (className parsed) | Inl e \<Rightarrow> False))"

text \<open>
  The catalog entry a walk has for one file, if it has one; the warning logged for a
  plugin or component file that failed, and for a utility file; the warnings of a
  log; the two directories walked; and the relation between a world and a later one
  in which the cache is the same and the log and the file-system calls have only
  grown.
\<close>

definition plugin_of :: "'c CodebaseIndexer \<Rightarrow> libs \<Rightarrow> filesystem \<Rightarrow> string \<Rightarrow> FoundationPlugin option" where
  "plugin_of idx L F file =
     (if skipped file then None
      else case parsePluginFile idx L F file of Inr (Some p) \<Rightarrow> Some p | _ \<Rightarrow> None)"

definition component_of ::
  "'c CodebaseIndexer \<Rightarrow> libs \<Rightarrow> filesystem \<Rightarrow> string \<Rightarrow> FoundationComponent option" where
  "component_of idx L F file =
     (case parseComponentFile idx L F file of Inr c \<Rightarrow> Some c | Inl e \<Rightarrow> None)"

definition utility_of ::
  "'c CodebaseIndexer \<Rightarrow> libs \<Rightarrow> filesystem \<Rightarrow> string \<Rightarrow> FoundationUtility option" where
  "utility_of idx L F file =
     (case parseUtilityFile idx L F file of Inr u \<Rightarrow> Some u | Inl e \<Rightarrow> None)"

definition warning :: "string \<Rightarrow> string \<Rightarrow> error \<Rightarrow> log_entry" where
  "warning what file e =
     \<lparr>level = LogWarn, logged = ''Failed to parse '' @ what @ '' file: '' @ file,
      meta = Some (Fields [(''error'', error_message e)])\<rparr>"

definition utility_warning :: "string \<Rightarrow> error \<Rightarrow> log_entry" where
  "utility_warning file e =
     \<lparr>level = LogWarn, logged = ''Failed to parse utility file: '' @ file,
      meta = Some (Thrown e)\<rparr>"

definition warnings :: "'c world \<Rightarrow> log_entry list" where
  "warnings w = filter (\<lambda>x. level x = LogWarn) (log w)"

definition jsDir :: "'c CodebaseIndexer \<Rightarrow> libs \<Rightarrow> string" where
  "jsDir idx L = path_join L (foundationRepoPath idx) ''js''"

definition scssDir :: "'c CodebaseIndexer \<Rightarrow> libs \<Rightarrow> string" where
  "scssDir idx L = path_join L (foundationRepoPath idx) ''scss/components''"

definition grows :: "'c world \<Rightarrow> 'c world \<Rightarrow> bool" where
  "grows w w' = (store w' = store w \<and> prefix (log w) (log w') \<and> prefix (fs_calls w) (fs_calls w'))"

text \<open>
  The snapshot a build assembles from the file system when the cache has none, and
  what the build returns for it: the snapshot, unless the cache rejects it.
\<close>

definition assembled ::
  "'c CodebaseIndexer \<Rightarrow> libs \<Rightarrow> filesystem \<Rightarrow> error + FoundationIndex" where
  "assembled idx L F =
     (case findFiles F (jsDir idx L) ''foundation.*.js'' of
        Inl e \<Rightarrow> Inl e
      | Inr pfiles \<Rightarrow>
          (case findFiles F (scssDir idx L) ''*.scss'' of
             Inl e \<Rightarrow> Inl e
           | Inr cfiles \<Rightarrow>
               (case findFiles F (jsDir idx L) ''foundation.util.*.js'' of
                  Inl e \<Rightarrow> Inl e
                | Inr ufiles \<Rightarrow>
                    Inr \<lparr>plugins = List.map_filter (plugin_of idx L F) pfiles,
                         components = List.map_filter (component_of idx L F) cfiles,
                         utilities = List.map_filter (utility_of idx L F) ufiles,
                         grids = indexGrids\<rparr>)))"

definition caching :: "'c CodebaseIndexer \<Rightarrow> 'c \<Rightarrow> error + FoundationIndex \<Rightarrow> error + FoundationIndex" where
  "caching idx c r =
     (case r of
        Inl e \<Rightarrow> Inl e
      | Inr index \<Rightarrow>
          (case cache_set (cache idx) c pluginIndex index of
             Inl e \<Rightarrow> Inl e
           | Inr c' \<Rightarrow> Inr index))"

text \<open>
  For the refactoring analyzer: the source parses with the grammar of its kind; the
  names and slugs of the catalog of that kind; the features checked for that kind.
\<close>

definition parses :: "libs \<Rightarrow> sourceType \<Rightarrow> string \<Rightarrow> bool" where
  "parses L t code =
     (case t of
        CustomPlugin \<Rightarrow> \<not> isl (parsePlugin L code)
      | CustomComponent \<Rightarrow> \<not> isl (parseComponent L code))"

definition catalog :: "FoundationIndex \<Rightarrow> sourceType \<Rightarrow> (string \<times> string) list" where
  "catalog index t =
     (case t of
        CustomPlugin \<Rightarrow> map (\<lambda>c. (name c, slug c)) (plugins index)
      | CustomComponent \<Rightarrow> map (\<lambda>c. (name c, slug c)) (components index))"




section \<open>Properties of the script parser\<close>

lemma export_member_frame [simp]:
  "className (export_member s m) = className s" "extendsClass (export_member s m) = extendsClass s"
  by (auto simp: export_member_def split: node.splits)

lemma class_member_frame [simp]:
  "className (class_member s m) = className s" "extendsClass (class_member s m) = extendsClass s"
  by (auto simp: class_member_def split: node.splits)

lemma foldl_export_member_frame [simp]:
  "className (foldl export_member s ms) = className s"
  "extendsClass (foldl export_member s ms) = extendsClass s"
  by (induction ms arbitrary: s) auto

lemma foldl_class_member_frame [simp]:
  "className (foldl class_member s ms) = className s"
  "extendsClass (foldl class_member s ms) = extendsClass s"
  by (induction ms arbitrary: s) auto

lemma className_visit:
  "className (visit s n) =
     (case exported_name n of
        Some c \<Rightarrow> c
      | None \<Rightarrow> (case declared_name n of
                   Some c \<Rightarrow> (if truthy (className s) then className s else c)
                 | None \<Rightarrow> className s))"
  by (auto simp: visit_def visit_ExportNamedDeclaration_def visit_ClassDeclaration_def
        visit_CallExpression_def exported_name_def declared_name_def Let_def
      split: node.splits option.splits list.splits)

lemma extendsClass_visit:
  "extendsClass (visit s n) =
     (case exported_parent n of
        Some p \<Rightarrow> Some p
      | None \<Rightarrow> (case declared_parent n of
                   Some p \<Rightarrow> (if truthy_opt (extendsClass s) then extendsClass s else Some p)
                 | None \<Rightarrow> extendsClass s))"
  by (auto simp: visit_def visit_ExportNamedDeclaration_def visit_ClassDeclaration_def
        visit_CallExpression_def exported_parent_def declared_parent_def Let_def
      split: node.splits option.splits list.splits)

lemma map_filter_snoc:
  "List.map_filter f (xs @ [x]) =
     List.map_filter f xs @ (case f x of None \<Rightarrow> [] | Some y \<Rightarrow> [y])"
  by (simp add: List.map_filter_def split: option.splits)

lemma className_exported_wins:
  assumes "list_all truthy (exported_names vs)" and "exported_names vs \<noteq> []"
  shows "className (foldl visit s vs) = last (exported_names vs)"
  using assms
proof (induction vs rule: rev_induct)
  case Nil
  then show ?case by (simp add: exported_names_def)
next
  case (snoc v vs)
  show ?case
  proof (cases "exported_name v")
    case (Some c)
    then show ?thesis
      by (simp add: className_visit exported_names_def map_filter_snoc)
  next
    case None
    with snoc.prems have ne: "exported_names vs \<noteq> []" and tr: "list_all truthy (exported_names vs)"
      by (simp_all add: exported_names_def map_filter_snoc)
    from tr ne have ih: "className (foldl visit s vs) = last (exported_names vs)"
      by (rule snoc.IH)
    from ne tr have "truthy (last (exported_names vs))"
      by (simp add: list_all_iff)
    with ih None show ?thesis
      by (simp add: className_visit exported_names_def map_filter_snoc split: option.splits)
  qed
qed

lemma extendsClass_exported_wins:
  assumes "list_all truthy (exported_parents vs)" and "exported_parents vs \<noteq> []"
  shows "extendsClass (foldl visit s vs) = Some (last (exported_parents vs))"
  using assms
proof (induction vs rule: rev_induct)
  case Nil
  then show ?case by (simp add: exported_parents_def)
next
  case (snoc v vs)
  show ?case
  proof (cases "exported_parent v")
    case (Some c)
    then show ?thesis
      by (simp add: extendsClass_visit exported_parents_def map_filter_snoc)
  next
    case None
    with snoc.prems have ne: "exported_parents vs \<noteq> []" and tr: "list_all truthy (exported_parents vs)"
      by (simp_all add: exported_parents_def map_filter_snoc)
    from tr ne have ih: "extendsClass (foldl visit s vs) = Some (last (exported_parents vs))"
      by (rule snoc.IH)
    from ne tr have "truthy (last (exported_parents vs))"
      by (simp add: list_all_iff)
    with ih None show ?thesis
      by (simp add: extendsClass_visit exported_parents_def map_filter_snoc truthy_opt_def
          split: option.splits)
  qed
qed

lemma className_first_declared:
  assumes "exported_names vs = []" and "list_all truthy (declared_names vs)"
    and "className s = []"
  shows "className (foldl visit s vs) = (case declared_names vs of [] \<Rightarrow> [] | c # _ \<Rightarrow> c)"
  using assms
proof (induction vs rule: rev_induct)
  case Nil
  then show ?case by (simp add: declared_names_def)
next
  case (snoc v vs)
  from snoc.prems have e: "exported_names vs = []" "exported_name v = None"
    by (auto simp: exported_names_def map_filter_snoc split: option.splits)
  from snoc.prems have t: "list_all truthy (declared_names vs)"
    by (simp add: declared_names_def map_filter_snoc)
  have ih: "className (foldl visit s vs) = (case declared_names vs of [] \<Rightarrow> [] | c # _ \<Rightarrow> c)"
    using e(1) t snoc.prems(3) by (rule snoc.IH)
  show ?case
  proof (cases "declared_name v")
    case None
    with ih e show ?thesis
      by (simp add: className_visit declared_names_def map_filter_snoc split: list.splits)
  next
    case (Some c)
    show ?thesis
    proof (cases "declared_names vs")
      case Nil
      with ih e Some show ?thesis
        by (simp add: className_visit declared_names_def map_filter_snoc truthy_def)
    next
      case (Cons d ds)
      with t have "truthy d" by simp
      with ih e Some Cons show ?thesis
        by (simp add: className_visit declared_names_def map_filter_snoc)
    qed
  qed
qed

lemma extendsClass_first_declared:
  assumes "exported_parents vs = []" and "list_all truthy (declared_parents vs)"
    and "extendsClass s = None"
  shows "extendsClass (foldl visit s vs) =
           (case declared_parents vs of [] \<Rightarrow> None | p # _ \<Rightarrow> Some p)"
  using assms
proof (induction vs rule: rev_induct)
  case Nil
  then show ?case by (simp add: declared_parents_def)
next
  case (snoc v vs)
  from snoc.prems have e: "exported_parents vs = []" "exported_parent v = None"
    by (auto simp: exported_parents_def map_filter_snoc split: option.splits)
  from snoc.prems have t: "list_all truthy (declared_parents vs)"
    by (simp add: declared_parents_def map_filter_snoc)
  have ih: "extendsClass (foldl visit s vs) =
              (case declared_parents vs of [] \<Rightarrow> None | p # _ \<Rightarrow> Some p)"
    using e(1) t snoc.prems(3) by (rule snoc.IH)
  show ?case
  proof (cases "declared_parent v")
    case None
    with ih e show ?thesis
      by (simp add: extendsClass_visit declared_parents_def map_filter_snoc split: list.splits)
  next
    case (Some c)
    show ?thesis
    proof (cases "declared_parents vs")
      case Nil
      with ih e Some show ?thesis
        by (simp add: extendsClass_visit declared_parents_def map_filter_snoc truthy_opt_def)
    next
      case (Cons d ds)
      with t have "truthy d" by simp
      with ih e Some Cons show ?thesis
        by (simp add: extendsClass_visit declared_parents_def map_filter_snoc truthy_opt_def)
    qed
  qed
qed

text \<open>
  C9 (as amended). When the source parses, with \<open>vs\<close> the nodes in traversal order and
  no empty identifier among the class names and superclasses: the class name is that
  of the last exported class declaration, and without one that of the first class
  declaration; the parent class is the identifier superclass of the last exported
  class declaration that has one, and when no exported class declaration has one it
  is that of the first class declaration that has one (a bare class then fills it
  in), or null. The visitor of a bare class declaration never replaces a class name
  or a parent class that is already set.
\<close>

theorem parsePlugin_class_resolution:
  assumes "babelParse L code = Inr body"
    and "vs = concat (map traverse body)"
    and "list_all truthy
           (exported_names vs @ exported_parents vs @ declared_names vs @ declared_parents vs)"
  shows "\<exists>r. parsePlugin L code = Inr r
           \<and> (exported_names vs \<noteq> [] \<longrightarrow> className r = last (exported_names vs))
           \<and> (exported_names vs = [] \<longrightarrow>
                 className r = (case declared_names vs of [] \<Rightarrow> [] | c # _ \<Rightarrow> c))
           \<and> (exported_parents vs \<noteq> [] \<longrightarrow>
                 extendsClass r = Some (last (exported_parents vs)))
           \<and> (exported_parents vs = [] \<longrightarrow>
                 extendsClass r = (case declared_parents vs of [] \<Rightarrow> None | p # _ \<Rightarrow> Some p))
           \<and> (\<forall>s cid sc ms. truthy (className s) \<longrightarrow>
                 className (visit_ClassDeclaration s cid sc ms) = className s)
           \<and> (\<forall>s cid sc ms. truthy_opt (extendsClass s) \<longrightarrow>
                 extendsClass (visit_ClassDeclaration s cid sc ms) = extendsClass s)"
proof -
  let ?r = "foldl visit initial_plugin vs"
  have p: "parsePlugin L code = Inr ?r"
    using assms(1,2) by (simp add: parsePlugin_def traverse_program_def)
  from assms(3) have t: "list_all truthy (exported_names vs)" "list_all truthy (exported_parents vs)"
      "list_all truthy (declared_names vs)" "list_all truthy (declared_parents vs)"
    by simp_all
  have c1: "exported_names vs \<noteq> [] \<longrightarrow> className ?r = last (exported_names vs)"
    using className_exported_wins [OF t(1)] by blast
  have c2: "exported_names vs = [] \<longrightarrow>
              className ?r = (case declared_names vs of [] \<Rightarrow> [] | c # _ \<Rightarrow> c)"
    using className_first_declared [OF _ t(3), of initial_plugin]
    by (simp add: initial_plugin_def)
  have c3: "exported_parents vs \<noteq> [] \<longrightarrow> extendsClass ?r = Some (last (exported_parents vs))"
    using extendsClass_exported_wins [OF t(2)] by blast
  have c4: "exported_parents vs = [] \<longrightarrow>
              extendsClass ?r = (case declared_parents vs of [] \<Rightarrow> None | p # _ \<Rightarrow> Some p)"
    using extendsClass_first_declared [OF _ t(4), of initial_plugin]
    by (simp add: initial_plugin_def)
  have c5: "\<forall>s cid sc ms. truthy (className s) \<longrightarrow>
              className (visit_ClassDeclaration s cid sc ms) = className s"
    by (auto simp: visit_ClassDeclaration_def Let_def split: option.splits node.splits)
  have c6: "\<forall>s cid sc ms. truthy_opt (extendsClass s) \<longrightarrow>
              extendsClass (visit_ClassDeclaration s cid sc ms) = extendsClass s"
    by (auto simp: visit_ClassDeclaration_def Let_def split: option.splits node.splits)
  from p c1 c2 c3 c4 c5 c6 show ?thesis by blast
qed

theorem parsePlugin_class_resolution_witness:
  "\<exists>r. parsePlugin example_libs two_classes_code = Inr r
         \<and> className r = ''Baz'' \<and> extendsClass r = Some ''Bar''"
proof -
  have h1: "babelParse example_libs two_classes_code = Inr two_classes_ast"
    by (simp add: example_libs_def example_babel_def two_classes_code_def tabs_code_def)
  have vs: "concat (map traverse two_classes_ast) =
              [ExportNamedDeclaration (Some (ClassDeclaration (Some ''Baz'') None [])),
               ClassDeclaration (Some ''Baz'') None [],
               ClassDeclaration (Some ''Foo'') (Some (Identifier ''Bar'')) [],
               Identifier ''Bar'']"
    by (simp add: two_classes_ast_def)
  have en: "exported_names (concat (map traverse two_classes_ast)) = [''Baz'']"
    unfolding vs by (simp add: exported_names_def List.map_filter_def exported_name_def)
  have ep: "exported_parents (concat (map traverse two_classes_ast)) = []"
    unfolding vs by (simp add: exported_parents_def List.map_filter_def exported_parent_def)
  have dn: "declared_names (concat (map traverse two_classes_ast)) = [''Baz'', ''Foo'']"
    unfolding vs by (simp add: declared_names_def List.map_filter_def declared_name_def)
  have dp: "declared_parents (concat (map traverse two_classes_ast)) = [''Bar'']"
    unfolding vs by (simp add: declared_parents_def List.map_filter_def declared_parent_def)
  have h3: "list_all truthy
      (exported_names (concat (map traverse two_classes_ast))
       @ exported_parents (concat (map traverse two_classes_ast))
       @ declared_names (concat (map traverse two_classes_ast))
       @ declared_parents (concat (map traverse two_classes_ast)))"
    by (simp add: en ep dn dp truthy_def)
  show ?thesis
    using parsePlugin_class_resolution [OF h1 refl h3]
    by (auto simp: en ep dn dp)
qed

text \<open>
  The source \<^verbatim>\<open>export class Baz {} class Foo extends Bar {}\<close> has an exported and a
  bare class declaration; the exported one has no superclass, and the parent class of
  the record is \<^verbatim>\<open>Bar\<close>, taken from the bare one.
\<close>

theorem parsePlugin_parent_from_bare_class:
  "exported_names (concat (map traverse two_classes_ast)) = [''Baz'']
   \<and> exported_parents (concat (map traverse two_classes_ast)) = []
   \<and> parsePlugin example_libs two_classes_code =
       Inr \<lparr>className = ''Baz'', methods = [], properties = [], events = [],
            extendsClass = Some ''Bar'', imports' = [], exports = [''Baz'']\<rparr>"
  by code_simp

section \<open>Properties of the stylesheet parser\<close>

lemma or_undefined_Nil: "or_undefined [] = None"
  by (simp add: or_undefined_def truthy_def)

text \<open>
  C1. The comments are walked to the end before the first declaration is looked at.
  For the tree of \<^verbatim>\<open>/// First\<close>, \<^verbatim>\<open>$a: 1;\<close>, \<^verbatim>\<open>/// Second\<close>, \<^verbatim>\<open>$b: 2;\<close>, whatever
  the texts \<open>c1\<close> and \<open>c2\<close> of the two comments are, the variable \<^verbatim>\<open>$a\<close> gets the
  text of the second comment, which stands behind it, and \<^verbatim>\<open>$b\<close> gets no
  description although a comment stands right before it.
\<close>

theorem walk_component_last_comment_first_variable:
  "variables (walk_component
      [Comment c1, Declaration ''$a'' ''1'' [], Comment c2, Declaration ''$b'' ''2'' []]) =
     [\<lparr>var_name = ''$a'', var_defaultValue = ''1'', var_description = or_undefined (trim c2)\<rparr>,
      \<lparr>var_name = ''$b'', var_defaultValue = ''2'', var_description = None\<rparr>]"
  by (simp add: walk_component_def walk_root_def on_comment_def on_decl_def startsWith_def
        split_beta or_undefined_Nil)

lemma on_decl_descriptions:
  "map var_description (fst (foldl on_decl (acc, cur) ns)) =
     map var_description acc
       @ (case filter is_variable ns of
            [] \<Rightarrow> []
          | _ # rest \<Rightarrow> or_undefined cur # map (\<lambda>_. None) rest)"
proof (induction ns arbitrary: acc cur)
  case Nil
  show ?case by simp
next
  case (Cons n ns)
  show ?case
  proof (cases "is_variable n")
    case True
    then obtain p v ns' where n: "n = Declaration p v ns'" and d: "startsWith p ''$''"
      by (cases n) (auto simp: is_variable_def)
    have "on_decl (acc, cur) n =
            (acc @ [\<lparr>var_name = p, var_defaultValue = v, var_description = or_undefined cur\<rparr>], [])"
      using n d by (simp add: on_decl_def)
    then show ?thesis
      using True Cons.IH [of "acc @ [\<lparr>var_name = p, var_defaultValue = v,
                                       var_description = or_undefined cur\<rparr>]" "[]"]
      by (simp add: or_undefined_def truthy_def split: list.splits)
  next
    case False
    then have "on_decl (acc, cur) n = (acc, cur)"
      by (cases n) (auto simp: is_variable_def on_decl_def)
    then show ?thesis
      using False Cons.IH [of acc cur] by simp
  qed
qed

text \<open>
  In any stylesheet only the first \<^verbatim>\<open>$\<close> declaration in walk order can have a
  description, and it is the trimmed text of the last comment of the whole tree.
\<close>

theorem only_first_variable_described:
  "map var_description (variables (walk_component nodes)) =
     (case filter is_variable (walk_root nodes) of
        [] \<Rightarrow> []
      | _ # rest \<Rightarrow> or_undefined (foldl on_comment [] (walk_root nodes)) # map (\<lambda>_. None) rest)"
  using on_decl_descriptions [of "[]" "foldl on_comment [] (walk_root nodes)" "walk_root nodes"]
  by (simp add: walk_component_def Let_def split_beta)

section \<open>Properties of the pattern analyzer\<close>

lemma list_all_ex_or_empty: "list_all P xs \<Longrightarrow> list_ex P xs \<or> xs = []"
  by (cases xs) auto

text \<open>
  C2 (as amended). A plugin source that parses, extends \<^verbatim>\<open>Plugin\<close>, has the methods
  \<^verbatim>\<open>_init\<close>, \<^verbatim>\<open>_destroy\<close> and \<^verbatim>\<open>constructor\<close>, a PascalCase class name, the
  doc-comment and class-tag markers, only namespaced trigger events, an ARIA marker,
  a keyboard marker and a focus call scores 80 for architecture, 100 for conventions
  and 100 for accessibility, and is classified as a match.
\<close>

theorem plugin_full_marks_80_100_100:
  assumes "parsePlugin L code = Inr parsed"
    and "extendsClass parsed = Some ''Plugin''"
    and "''_init'' \<in> set (methods parsed)" and "''_destroy'' \<in> set (methods parsed)"
    and "''constructor'' \<in> set (methods parsed)"
    and "isPascalCase (className parsed)"
    and "str_includes code ''/**''" and "str_includes code ''@class''"
    and "list_all (\<lambda>e. str_includes e ''.zf.'') (trigger_events code)"
    and "str_includes code ''aria-'' \<or> str_includes code ''role=''"
    and "str_includes code ''Keyboard'' \<or> str_includes code ''KEYS''"
    and "str_includes code ''focus()'' \<or> str_includes code ''$element.focus''"
  shows "conformance (analyzePluginPattern L code) =
           \<lparr>architecture = 80, conventions = 100, accessibility = 100\<rparr>
         \<and> matches (analyzePluginPattern L code) = Matches"
proof -
  have ev: "list_ex (\<lambda>e. str_includes e ''.zf.'') (trigger_events code) \<or> trigger_events code = []"
    using assms(9) by (rule list_all_ex_or_empty)
  have nm: "truthy (className parsed)"
    using assms(6) by (auto simp: isPascalCase_def truthy_def split: list.splits)
  show ?thesis
    using assms(1-8,10-12) ev nm
    by (simp add: analyzePluginPattern_def score_plugin_def Let_def)
qed

theorem plugin_full_marks_witness:
  "conformance (analyzePluginPattern example_libs tabs_code) =
     \<lparr>architecture = 80, conventions = 100, accessibility = 100\<rparr>
   \<and> matches (analyzePluginPattern example_libs tabs_code) = Matches"
proof -
  have h1: "parsePlugin example_libs tabs_code = Inr (traverse_program tabs_ast)"
    by (simp add: parsePlugin_def example_libs_def example_babel_def)
  have h2: "extendsClass (traverse_program tabs_ast) = Some ''Plugin''" by code_simp
  have h3: "''_init'' \<in> set (methods (traverse_program tabs_ast))" by code_simp
  have h4: "''_destroy'' \<in> set (methods (traverse_program tabs_ast))" by code_simp
  have h5: "''constructor'' \<in> set (methods (traverse_program tabs_ast))" by code_simp
  have h6: "isPascalCase (className (traverse_program tabs_ast))" by code_simp
  have h7: "str_includes tabs_code ''/**''" by code_simp
  have h8: "str_includes tabs_code ''@class''" by code_simp
  have h9: "list_all (\<lambda>e. str_includes e ''.zf.'') (trigger_events tabs_code)" by code_simp
  have h10: "str_includes tabs_code ''aria-'' \<or> str_includes tabs_code ''role=''" by code_simp
  have h11: "str_includes tabs_code ''Keyboard'' \<or> str_includes tabs_code ''KEYS''" by code_simp
  have h12: "str_includes tabs_code ''focus()'' \<or> str_includes tabs_code ''$element.focus''"
    by code_simp
  show ?thesis
    by (rule plugin_full_marks_80_100_100 [OF h1 h2 h3 h4 h5 h6 h7 h8 h9 h10 h11 h12])
qed

text \<open>
  The source \<open>tabs_code\<close> has every mark the claim lists, and its architecture score
  is not 100: the three architecture checks add up to 80.
\<close>

theorem plugin_full_marks_counterexample:
  "parsePlugin example_libs tabs_code = Inr (traverse_program tabs_ast)
   \<and> extendsClass (traverse_program tabs_ast) = Some ''Plugin''
   \<and> ''_init'' \<in> set (methods (traverse_program tabs_ast))
   \<and> ''_destroy'' \<in> set (methods (traverse_program tabs_ast))
   \<and> ''constructor'' \<in> set (methods (traverse_program tabs_ast))
   \<and> isPascalCase (className (traverse_program tabs_ast))
   \<and> str_includes tabs_code ''/**'' \<and> str_includes tabs_code ''@class''
   \<and> list_all (\<lambda>e. str_includes e ''.zf.'') (trigger_events tabs_code)
   \<and> str_includes tabs_code ''aria-''
   \<and> str_includes tabs_code ''Keyboard''
   \<and> str_includes tabs_code ''focus()''
   \<and> architecture (conformance (analyzePluginPattern example_libs tabs_code)) \<noteq> 100"
  by code_simp

text \<open>
  C8. For the pattern type plugin, when the text that is analysed (the parameter, or
  the content of the file it names) does not parse, the report is the fixed failure
  report: no match, one issue of severity error saying that the parse failed, the
  three scores zero, and the one suggestion to fix the syntax errors.
\<close>

theorem analyzePattern_parse_failure_report:
  assumes "(if fileExists F c then readFile F c else Inr c) = Inr source"
    and "parsePlugin L source = Inl e"
  shows "analyzePattern L F \<lparr>p_code = c, p_patternType = Plugin\<rparr> =
           Inr \<lparr>matches = NoMatch,
                issues = [\<lparr>severity = SevError, message = ''Failed to parse code'',
                           suggestion = Some ''Ensure code is valid JavaScript''\<rparr>],
                conformance = \<lparr>architecture = 0, conventions = 0, accessibility = 0\<rparr>,
                suggestions = [''Fix syntax errors before analyzing'']\<rparr>"
  using assms
  by (auto simp: analyzePattern_def analyzePluginPattern_def parse_failure_report_def issue_def
           split: if_splits)

theorem analyzePattern_parse_failure_report_witness:
  "analyzePattern example_libs example_fs \<lparr>p_code = ''class {'', p_patternType = Plugin\<rparr> =
           Inr \<lparr>matches = NoMatch,
                issues = [\<lparr>severity = SevError, message = ''Failed to parse code'',
                           suggestion = Some ''Ensure code is valid JavaScript''\<rparr>],
                conformance = \<lparr>architecture = 0, conventions = 0, accessibility = 0\<rparr>,
                suggestions = [''Fix syntax errors before analyzing'']\<rparr>"
proof -
  have h1: "(if fileExists example_fs ''class {'' then readFile example_fs ''class {''
             else Inr ''class {'') = Inr ''class {''"
    by code_simp
  have h2: "parsePlugin example_libs ''class {'' =
              Inl (ParseError ''Failed to parse JavaScript plugin: Unexpected token'' ''class {'')"
    by code_simp
  show ?thesis
    by (rule analyzePattern_parse_failure_report [OF h1 h2])
qed



section \<open>Properties of the codebase index\<close>

text \<open>Every step of a walk leaves the cache alone and only adds to the log and the calls.\<close>

lemma grows_refl [simp]: "grows w w"
  by (simp add: grows_def)

lemma grows_trans: "grows w1 w2 \<Longrightarrow> grows w2 w3 \<Longrightarrow> grows w1 w3"
  by (auto simp: grows_def intro: prefix_order.trans)

lemma grows_logger [simp]: "grows w (logger lv m x w)"
  by (simp add: grows_def logger_def)

lemma grows_reading [simp]: "grows w (reading f w)"
  by (simp add: grows_def reading_def)

lemma grows_calling: "grows w (w\<lparr>fs_calls := fs_calls w @ cs\<rparr>)"
  by (simp add: grows_def)

lemma grows_log_mono: "grows w w' \<Longrightarrow> x \<in> set (log w) \<Longrightarrow> x \<in> set (log w')"
  by (auto simp: grows_def dest: set_mono_prefix)

lemma warnings_logger:
  "warnings (logger lv m x w) =
     warnings w @ (if lv = LogWarn then [\<lparr>level = lv, logged = m, meta = x\<rparr>] else [])"
  by (simp add: warnings_def logger_def)

lemma warnings_reading [simp]: "warnings (reading f w) = warnings w"
  by (simp add: warnings_def reading_def)

lemma warnings_calling [simp]: "warnings (w\<lparr>fs_calls := cs\<rparr>) = warnings w"
  by (simp add: warnings_def)

lemma warnings_store [simp]: "warnings (w\<lparr>store := c\<rparr>) = warnings w"
  by (simp add: warnings_def)

text \<open>
  The parser of a single file fails exactly when the read or the parse of the file
  fails, and with that error; the entry it gives carries the path of the file.
\<close>

lemma parsePluginFile_Inl: "(parsePluginFile idx L F f = Inl e) = (script_of L F f = Inl e)"
  by (auto simp: parsePluginFile_def script_of_def Let_def split: sum.splits)

lemma parsePluginFile_isl: "isl (parsePluginFile idx L F f) = isl (script_of L F f)"
  by (auto simp: parsePluginFile_def script_of_def Let_def split: sum.splits)

lemma plugin_of_path:
  "map_option plugin_path (plugin_of idx L F f) =
     (if gives_plugin L F f then Some (path_relative L (foundationRepoPath idx) f) else None)"
  by (auto simp: plugin_of_def gives_plugin_def parsePluginFile_def script_of_def Let_def
        split: sum.splits)

lemma parseComponentFile_Inl:
  "(parseComponentFile idx L F f = Inl e) = (stylesheet_of L F f = Inl e)"
  by (auto simp: parseComponentFile_def stylesheet_of_def Let_def split: sum.splits)

lemma parseComponentFile_isl: "isl (parseComponentFile idx L F f) = isl (stylesheet_of L F f)"
  by (auto simp: parseComponentFile_def stylesheet_of_def Let_def split: sum.splits)

lemma component_of_path:
  "map_option component_scssPath (component_of idx L F f) =
     (if \<not> isl (stylesheet_of L F f) then Some (path_relative L (foundationRepoPath idx) f)
      else None)"
  by (auto simp: component_of_def parseComponentFile_def stylesheet_of_def Let_def
        split: sum.splits)

lemma parseUtilityFile_Inl: "(parseUtilityFile idx L F f = Inl e) = (script_of L F f = Inl e)"
  by (auto simp: parseUtilityFile_def script_of_def Let_def split: sum.splits)

lemma parseUtilityFile_isl: "isl (parseUtilityFile idx L F f) = isl (script_of L F f)"
  by (auto simp: parseUtilityFile_def script_of_def Let_def split: sum.splits)

lemma utility_of_path:
  "map_option utility_path (utility_of idx L F f) =
     (if \<not> isl (script_of L F f) then Some (path_relative L (foundationRepoPath idx) f)
      else None)"
  by (auto simp: utility_of_def parseUtilityFile_def script_of_def Let_def split: sum.splits)

lemma map_map_filter:
  assumes "\<And>x. map_option g (f x) = (if P x then Some (h x) else None)"
  shows "map g (List.map_filter f xs) = map h (filter P xs)"
proof (induction xs)
  case Nil
  show ?case by (simp add: List.map_filter_simps)
next
  case (Cons x xs)
  show ?case
    using assms [of x] Cons.IH
    by (cases "f x") (auto simp: List.map_filter_simps split: if_splits)
qed

text \<open>One round of each loop.\<close>

lemma plugin_step_grows: "grows (snd st) (snd (plugin_step idx L F st f))"
  by (auto simp: plugin_step_def split: sum.splits option.splits
        intro: grows_trans [OF grows_reading grows_logger])

lemma plugin_step_fst:
  "fst (plugin_step idx L F st f) =
     fst st @ (case plugin_of idx L F f of None \<Rightarrow> [] | Some p \<Rightarrow> [p])"
  by (auto simp: plugin_step_def plugin_of_def split: sum.splits option.splits)

lemma plugin_step_warns:
  assumes "\<not> skipped f" and "script_of L F f = Inl e"
  shows "warning ''plugin'' f e \<in> set (log (snd (plugin_step idx L F st f)))"
proof -
  from assms(2) have "parsePluginFile idx L F f = Inl e"
    by (simp add: parsePluginFile_Inl)
  with assms(1) show ?thesis
    by (simp add: plugin_step_def warning_def logger_def)
qed

lemma plugin_step_count:
  "length (warnings (snd (plugin_step idx L F st f))) =
     length (warnings (snd st)) + (if \<not> skipped f \<and> isl (script_of L F f) then 1 else 0)"
  using parsePluginFile_isl [of idx L F f]
  by (auto simp: plugin_step_def warnings_logger split: sum.splits option.splits)

lemma fold_plugin_grows: "grows (snd st) (snd (foldl (plugin_step idx L F) st fs))"
proof (induction fs arbitrary: st)
  case Nil
  show ?case by simp
next
  case (Cons f fs)
  show ?case
    using grows_trans [OF plugin_step_grows Cons.IH] by simp
qed

lemma fold_plugin_fst:
  "fst (foldl (plugin_step idx L F) st fs) = fst st @ List.map_filter (plugin_of idx L F) fs"
  by (induction fs arbitrary: st)
     (auto simp: plugin_step_fst List.map_filter_simps split: option.splits)

lemma fold_plugin_warns:
  "f \<in> set fs \<Longrightarrow> \<not> skipped f \<Longrightarrow> script_of L F f = Inl e \<Longrightarrow>
     warning ''plugin'' f e \<in> set (log (snd (foldl (plugin_step idx L F) st fs)))"
proof (induction fs arbitrary: st)
  case Nil
  then show ?case by simp
next
  case (Cons g fs)
  show ?case
  proof (cases "f = g")
    case True
    with Cons.prems have "warning ''plugin'' f e \<in> set (log (snd (plugin_step idx L F st g)))"
      by (simp add: plugin_step_warns)
    then show ?thesis
      using grows_log_mono [OF fold_plugin_grows] by simp
  next
    case False
    with Cons.prems have "f \<in> set fs" by simp
    then show ?thesis
      using Cons.IH Cons.prems by simp
  qed
qed

lemma fold_plugin_count:
  "length (warnings (snd (foldl (plugin_step idx L F) st fs))) =
     length (warnings (snd st))
       + length (filter (\<lambda>f. \<not> skipped f \<and> isl (script_of L F f)) fs)"
  by (induction fs arbitrary: st) (simp_all add: plugin_step_count)

lemma component_step_grows: "grows (snd st) (snd (component_step idx L F st f))"
  by (auto simp: component_step_def split: sum.splits
        intro: grows_trans [OF grows_reading grows_logger])

lemma component_step_fst:
  "fst (component_step idx L F st f) =
     fst st @ (case component_of idx L F f of None \<Rightarrow> [] | Some p \<Rightarrow> [p])"
  by (auto simp: component_step_def component_of_def split: sum.splits)

lemma component_step_warns:
  assumes "stylesheet_of L F f = Inl e"
  shows "warning ''component'' f e \<in> set (log (snd (component_step idx L F st f)))"
proof -
  from assms have "parseComponentFile idx L F f = Inl e"
    by (simp add: parseComponentFile_Inl)
  then show ?thesis
    by (simp add: component_step_def warning_def logger_def)
qed

lemma component_step_count:
  "length (warnings (snd (component_step idx L F st f))) =
     length (warnings (snd st)) + (if isl (stylesheet_of L F f) then 1 else 0)"
  using parseComponentFile_isl [of idx L F f]
  by (auto simp: component_step_def warnings_logger split: sum.splits)

lemma fold_component_grows: "grows (snd st) (snd (foldl (component_step idx L F) st fs))"
proof (induction fs arbitrary: st)
  case Nil
  show ?case by simp
next
  case (Cons f fs)
  show ?case
    using grows_trans [OF component_step_grows Cons.IH] by simp
qed

lemma fold_component_fst:
  "fst (foldl (component_step idx L F) st fs) =
     fst st @ List.map_filter (component_of idx L F) fs"
  by (induction fs arbitrary: st)
     (auto simp: component_step_fst List.map_filter_simps split: option.splits)

lemma fold_component_warns:
  "f \<in> set fs \<Longrightarrow> stylesheet_of L F f = Inl e \<Longrightarrow>
     warning ''component'' f e \<in> set (log (snd (foldl (component_step idx L F) st fs)))"
proof (induction fs arbitrary: st)
  case Nil
  then show ?case by simp
next
  case (Cons g fs)
  show ?case
  proof (cases "f = g")
    case True
    with Cons.prems have "warning ''component'' f e \<in> set (log (snd (component_step idx L F st g)))"
      by (simp add: component_step_warns)
    then show ?thesis
      using grows_log_mono [OF fold_component_grows] by simp
  next
    case False
    with Cons.prems have "f \<in> set fs" by simp
    then show ?thesis
      using Cons.IH Cons.prems by simp
  qed
qed

lemma fold_component_count:
  "length (warnings (snd (foldl (component_step idx L F) st fs))) =
     length (warnings (snd st)) + length (filter (\<lambda>f. isl (stylesheet_of L F f)) fs)"
  by (induction fs arbitrary: st) (simp_all add: component_step_count)

lemma utility_step_grows: "grows (snd st) (snd (utility_step idx L F st f))"
  by (auto simp: utility_step_def split: sum.splits
        intro: grows_trans [OF grows_reading grows_logger])

lemma utility_step_fst:
  "fst (utility_step idx L F st f) =
     fst st @ (case utility_of idx L F f of None \<Rightarrow> [] | Some p \<Rightarrow> [p])"
  by (auto simp: utility_step_def utility_of_def split: sum.splits)

lemma utility_step_warns:
  assumes "script_of L F f = Inl e"
  shows "utility_warning f e \<in> set (log (snd (utility_step idx L F st f)))"
proof -
  from assms have "parseUtilityFile idx L F f = Inl e"
    by (simp add: parseUtilityFile_Inl)
  then show ?thesis
    by (simp add: utility_step_def utility_warning_def logger_def)
qed

lemma utility_step_count:
  "length (warnings (snd (utility_step idx L F st f))) =
     length (warnings (snd st)) + (if isl (script_of L F f) then 1 else 0)"
  using parseUtilityFile_isl [of idx L F f]
  by (auto simp: utility_step_def warnings_logger split: sum.splits)

lemma fold_utility_grows: "grows (snd st) (snd (foldl (utility_step idx L F) st fs))"
proof (induction fs arbitrary: st)
  case Nil
  show ?case by simp
next
  case (Cons f fs)
  show ?case
    using grows_trans [OF utility_step_grows Cons.IH] by simp
qed

lemma fold_utility_fst:
  "fst (foldl (utility_step idx L F) st fs) =
     fst st @ List.map_filter (utility_of idx L F) fs"
  by (induction fs arbitrary: st)
     (auto simp: utility_step_fst List.map_filter_simps split: option.splits)

lemma fold_utility_warns:
  "f \<in> set fs \<Longrightarrow> script_of L F f = Inl e \<Longrightarrow>
     utility_warning f e \<in> set (log (snd (foldl (utility_step idx L F) st fs)))"
proof (induction fs arbitrary: st)
  case Nil
  then show ?case by simp
next
  case (Cons g fs)
  show ?case
  proof (cases "f = g")
    case True
    with Cons.prems have "utility_warning f e \<in> set (log (snd (utility_step idx L F st g)))"
      by (simp add: utility_step_warns)
    then show ?thesis
      using grows_log_mono [OF fold_utility_grows] by simp
  next
    case False
    with Cons.prems have "f \<in> set fs" by simp
    then show ?thesis
      using Cons.IH Cons.prems by simp
  qed
qed

lemma fold_utility_count:
  "length (warnings (snd (foldl (utility_step idx L F) st fs))) =
     length (warnings (snd st)) + length (filter (\<lambda>f. isl (script_of L F f)) fs)"
  by (induction fs arbitrary: st) (simp_all add: utility_step_count)

text \<open>The three walks: what they return, what they log and which call they start with.\<close>

lemma indexPlugins_fst:
  "fst (indexPlugins idx L F w) =
     (case findFiles F (jsDir idx L) ''foundation.*.js'' of
        Inl e \<Rightarrow> Inl e
      | Inr files \<Rightarrow> Inr (List.map_filter (plugin_of idx L F) files))"
  by (simp add: indexPlugins_def jsDir_def Let_def fold_plugin_fst split: sum.splits)

lemma indexPlugins_grows: "grows w (snd (indexPlugins idx L F w))"
proof (cases "findFiles F (jsDir idx L) ''foundation.*.js''")
  case (Inl e)
  then show ?thesis
    by (simp add: indexPlugins_def jsDir_def Let_def grows_calling)
next
  case (Inr files)
  let ?w1 = "w\<lparr>fs_calls := fs_calls w @ [FindFiles (jsDir idx L) ''foundation.*.js'']\<rparr>"
  have "grows ?w1 (snd (foldl (plugin_step idx L F) ([], ?w1) files))"
    using fold_plugin_grows [of "([], ?w1)"] by simp
  then have "grows w (snd (foldl (plugin_step idx L F) ([], ?w1) files))"
    by (rule grows_trans [OF grows_calling])
  with Inr show ?thesis
    by (simp add: indexPlugins_def jsDir_def Let_def)
qed


lemma indexPlugins_warns:
  assumes "findFiles F (jsDir idx L) ''foundation.*.js'' = Inr files"
    and "f \<in> set files" and "\<not> skipped f" and "script_of L F f = Inl e"
  shows "warning ''plugin'' f e \<in> set (log (snd (indexPlugins idx L F w)))"
  using assms(1) fold_plugin_warns [OF assms(2,3,4)]
  by (simp add: indexPlugins_def jsDir_def Let_def)

lemma indexPlugins_count:
  assumes "findFiles F (jsDir idx L) ''foundation.*.js'' = Inr files"
  shows "length (warnings (snd (indexPlugins idx L F w))) =
           length (warnings w) + length (filter (\<lambda>f. \<not> skipped f \<and> isl (script_of L F f)) files)"
  using assms by (simp add: indexPlugins_def jsDir_def Let_def fold_plugin_count)

lemma indexComponents_fst:
  "fst (indexComponents idx L F w) =
     (case findFiles F (scssDir idx L) ''*.scss'' of
        Inl e \<Rightarrow> Inl e
      | Inr files \<Rightarrow> Inr (List.map_filter (component_of idx L F) files))"
  by (simp add: indexComponents_def scssDir_def Let_def fold_component_fst split: sum.splits)

lemma indexComponents_grows: "grows w (snd (indexComponents idx L F w))"
proof (cases "findFiles F (scssDir idx L) ''*.scss''")
  case (Inl e)
  then show ?thesis
    by (simp add: indexComponents_def scssDir_def Let_def grows_calling)
next
  case (Inr files)
  let ?w1 = "w\<lparr>fs_calls := fs_calls w @ [FindFiles (scssDir idx L) ''*.scss'']\<rparr>"
  have "grows ?w1 (snd (foldl (component_step idx L F) ([], ?w1) files))"
    using fold_component_grows [of "([], ?w1)"] by simp
  then have "grows w (snd (foldl (component_step idx L F) ([], ?w1) files))"
    by (rule grows_trans [OF grows_calling])
  with Inr show ?thesis
    by (simp add: indexComponents_def scssDir_def Let_def)
qed

lemma indexComponents_warns:
  assumes "findFiles F (scssDir idx L) ''*.scss'' = Inr files"
    and "f \<in> set files" and "stylesheet_of L F f = Inl e"
  shows "warning ''component'' f e \<in> set (log (snd (indexComponents idx L F w)))"
  using assms(1) fold_component_warns [OF assms(2,3)]
  by (simp add: indexComponents_def scssDir_def Let_def)

lemma indexComponents_count:
  assumes "findFiles F (scssDir idx L) ''*.scss'' = Inr files"
  shows "length (warnings (snd (indexComponents idx L F w))) =
           length (warnings w) + length (filter (\<lambda>f. isl (stylesheet_of L F f)) files)"
  using assms by (simp add: indexComponents_def scssDir_def Let_def fold_component_count)

lemma indexUtilities_fst:
  "fst (indexUtilities idx L F w) =
     (case findFiles F (jsDir idx L) ''foundation.util.*.js'' of
        Inl e \<Rightarrow> Inl e
      | Inr files \<Rightarrow> Inr (List.map_filter (utility_of idx L F) files))"
  by (simp add: indexUtilities_def jsDir_def Let_def fold_utility_fst split: sum.splits)

lemma indexUtilities_grows: "grows w (snd (indexUtilities idx L F w))"
proof (cases "findFiles F (jsDir idx L) ''foundation.util.*.js''")
  case (Inl e)
  then show ?thesis
    by (simp add: indexUtilities_def jsDir_def Let_def grows_calling)
next
  case (Inr files)
  let ?w1 = "w\<lparr>fs_calls := fs_calls w @ [FindFiles (jsDir idx L) ''foundation.util.*.js'']\<rparr>"
  have "grows ?w1 (snd (foldl (utility_step idx L F) ([], ?w1) files))"
    using fold_utility_grows [of "([], ?w1)"] by simp
  then have "grows w (snd (foldl (utility_step idx L F) ([], ?w1) files))"
    by (rule grows_trans [OF grows_calling])
  with Inr show ?thesis
    by (simp add: indexUtilities_def jsDir_def Let_def)
qed

lemma indexUtilities_warns:
  assumes "findFiles F (jsDir idx L) ''foundation.util.*.js'' = Inr files"
    and "f \<in> set files" and "script_of L F f = Inl e"
  shows "utility_warning f e \<in> set (log (snd (indexUtilities idx L F w)))"
  using assms(1) fold_utility_warns [OF assms(2,3)]
  by (simp add: indexUtilities_def jsDir_def Let_def)

lemma indexUtilities_count:
  assumes "findFiles F (jsDir idx L) ''foundation.util.*.js'' = Inr files"
  shows "length (warnings (snd (indexUtilities idx L F w))) =
           length (warnings w) + length (filter (\<lambda>f. isl (script_of L F f)) files)"
  using assms by (simp add: indexUtilities_def jsDir_def Let_def fold_utility_count)

lemma walks_grow:
  "grows w (snd (indexUtilities idx L F (snd (indexComponents idx L F (snd (indexPlugins idx L F w))))))"
  by (rule grows_trans [OF indexPlugins_grows grows_trans [OF indexComponents_grows indexUtilities_grows]])

text \<open>A build that the cache rejects, one with the snapshot in the cache, and one without.\<close>

lemma buildIndex_rejected:
  "cache_get (cache idx) (store w) pluginIndex = Inl e \<Longrightarrow>
     buildIndex idx L F w =
       (Inl e, logger LogInfo ''Building Foundation codebase index...'' None w)"
  by (simp add: buildIndex_def Let_def logger_def)

lemma buildIndex_hit:
  "cache_get (cache idx) (store w) pluginIndex = Inr (Some cached) \<Longrightarrow>
     buildIndex idx L F w =
       (Inr cached, logger LogDebug ''Returning cached index'' None
                      (logger LogInfo ''Building Foundation codebase index...'' None w))"
  by (simp add: buildIndex_def Let_def logger_def)

lemma buildIndex_miss_fst:
  "cache_get (cache idx) (store w) pluginIndex = Inr None \<Longrightarrow>
     fst (buildIndex idx L F w) = caching idx (store w) (assembled idx L F)"
proof -
  assume miss: "cache_get (cache idx) (store w) pluginIndex = Inr None"
  let ?w0 = "logger LogInfo ''Building Foundation codebase index...'' None w"
  have "grows ?w0 (snd (indexUtilities idx L F (snd (indexComponents idx L F
          (snd (indexPlugins idx L F ?w0))))))"
    by (rule walks_grow)
  then have st: "store (snd (indexUtilities idx L F (snd (indexComponents idx L F
          (snd (indexPlugins idx L F ?w0)))))) = store w"
    by (simp add: grows_def logger_def)
  show ?thesis
    using miss st
    by (simp add: buildIndex_def Let_def logger_def assembled_def caching_def
          indexPlugins_fst indexComponents_fst indexUtilities_fst split: sum.splits)
qed



lemma buildIndex_fst_store:
  "store w = store w2 \<Longrightarrow> fst (buildIndex idx L F w) = fst (buildIndex idx L F w2)"
proof (cases "cache_get (cache idx) (store w2) pluginIndex")
  case (Inl e)
  assume "store w = store w2"
  with Inl show ?thesis
    by (simp add: buildIndex_rejected)
next
  case (Inr found)
  assume "store w = store w2"
  with Inr show ?thesis
    by (cases found) (simp_all add: buildIndex_miss_fst buildIndex_hit)
qed


text \<open>The worked repositories.\<close>

lemma example_walks:
  "findFiles example_fs (jsDir example_indexer example_libs) ''foundation.*.js'' = Inr plugin_files"
  "findFiles example_fs (scssDir example_indexer example_libs) ''*.scss'' = Inr []"
  "findFiles example_fs (jsDir example_indexer example_libs) ''foundation.util.*.js'' = Inr []"
  by (simp_all add: findFiles_def example_fs_def jsDir_def scssDir_def example_indexer_def
        example_libs_def)


lemma mixed_walks:
  "findFiles mixed_fs (jsDir example_indexer example_libs) ''foundation.*.js'' = Inr mixed_scripts"
  "findFiles mixed_fs (scssDir example_indexer example_libs) ''*.scss'' = Inr mixed_stylesheets"
  "findFiles mixed_fs (jsDir example_indexer example_libs) ''foundation.util.*.js''
     = Inr mixed_utilities"
  by (simp_all add: findFiles_def mixed_fs_def jsDir_def scssDir_def example_indexer_def
        example_libs_def)

lemma fresh_world_miss:
  "cache_get (cache example_indexer) (store fresh_world) pluginIndex = Inr None"
  by (simp add: example_indexer_def MemoryCache_def fresh_world_def)

lemma MemoryCache_accepts:
  "\<not> isl (cache_set (cache example_indexer) c pluginIndex v)"
  by (simp add: example_indexer_def MemoryCache_def)

lemma MemoryCache_caching: "caching example_indexer c r = r"
  by (simp add: caching_def example_indexer_def MemoryCache_def split: sum.splits)

lemma example_build:
  "fst (buildIndex example_indexer example_libs example_fs fresh_world) =
     Inr \<lparr>plugins = List.map_filter (plugin_of example_indexer example_libs example_fs) plugin_files,
          components = [], utilities = [], grids = indexGrids\<rparr>"
proof -
  have "fst (buildIndex example_indexer example_libs example_fs fresh_world)
          = assembled example_indexer example_libs example_fs"
    using buildIndex_miss_fst [OF fresh_world_miss] by (simp add: MemoryCache_caching)
  then show ?thesis
    by (simp add: assembled_def example_walks List.map_filter_simps)
qed






text \<open>
  C6 (as amended). When the three directory walks succeed and the cache rejects
  neither the lookup nor the store of the snapshot, \<^verbatim>\<open>buildIndex\<close> returns a snapshot.
  When it was not served from the cache, each catalog holds, in the order of the
  walk, one entry for every file that was read and parsed (for the plugins: that is
  not skipped by name and has a class name), with the path of that file, and no
  other entry; for every file whose read or parse failed, the warning with its error
  is in the log (the message of the error for a plugin or a component, the error
  itself for a utility), and the log has as many new warnings as files failed. With
  one file that does not parse among nine that give an entry, the catalog has nine.
\<close>

theorem buildIndex_isolates_file_failures:
  assumes "findFiles F (jsDir idx L) ''foundation.*.js'' = Inr pfiles"
    and "findFiles F (scssDir idx L) ''*.scss'' = Inr cfiles"
    and "findFiles F (jsDir idx L) ''foundation.util.*.js'' = Inr ufiles"
    and "cache_get (cache idx) (store w) pluginIndex = Inr cached"
    and "\<And>v. \<not> isl (cache_set (cache idx) (store w) pluginIndex v)"
  shows "\<exists>index w'. buildIndex idx L F w = (Inr index, w') \<and>
     (cached = None \<longrightarrow>
        map plugin_path (plugins index) =
          map (path_relative L (foundationRepoPath idx)) (filter (gives_plugin L F) pfiles)
      \<and> map component_scssPath (components index) =
          map (path_relative L (foundationRepoPath idx))
            (filter (\<lambda>f. \<not> isl (stylesheet_of L F f)) cfiles)
      \<and> map utility_path (utilities index) =
          map (path_relative L (foundationRepoPath idx))
            (filter (\<lambda>f. \<not> isl (script_of L F f)) ufiles)
      \<and> (\<forall>f e. f \<in> set pfiles \<and> \<not> skipped f \<and> script_of L F f = Inl e \<longrightarrow>
             warning ''plugin'' f e \<in> set (log w'))
      \<and> (\<forall>f e. f \<in> set cfiles \<and> stylesheet_of L F f = Inl e \<longrightarrow>
             warning ''component'' f e \<in> set (log w'))
      \<and> (\<forall>f e. f \<in> set ufiles \<and> script_of L F f = Inl e \<longrightarrow>
             utility_warning f e \<in> set (log w'))
      \<and> length (warnings w') =
          length (warnings w)
            + length (filter (\<lambda>f. \<not> skipped f \<and> isl (script_of L F f)) pfiles)
            + length (filter (\<lambda>f. isl (stylesheet_of L F f)) cfiles)
            + length (filter (\<lambda>f. isl (script_of L F f)) ufiles))"
proof (cases cached)
  case (Some found)
  with assms(4) show ?thesis
    by (simp add: buildIndex_hit)
next
  case None
  with assms(4) have miss: "cache_get (cache idx) (store w) pluginIndex = Inr None"
    by simp
  let ?index = "\<lparr>plugins = List.map_filter (plugin_of idx L F) pfiles,
                  components = List.map_filter (component_of idx L F) cfiles,
                  utilities = List.map_filter (utility_of idx L F) ufiles,
                  grids = indexGrids\<rparr>"
  let ?w0 = "logger LogInfo ''Building Foundation codebase index...'' None w"
  let ?w1 = "snd (indexPlugins idx L F ?w0)"
  let ?w2 = "snd (indexComponents idx L F ?w1)"
  let ?w3 = "snd (indexUtilities idx L F ?w2)"
  let ?w' = "snd (buildIndex idx L F w)"
  obtain c where c: "cache_set (cache idx) (store w) pluginIndex ?index = Inr c"
    using assms(5) [of ?index] by (cases "cache_set (cache idx) (store w) pluginIndex ?index") auto
  have a: "assembled idx L F = Inr ?index"
    using assms(1,2,3) by (simp add: assembled_def)
  have f: "fst (buildIndex idx L F w) = Inr ?index"
    using buildIndex_miss_fst [OF miss, of L F] a c by (simp add: caching_def)
  have "grows ?w0 ?w3" by (rule walks_grow)
  then have st: "store ?w3 = store w"
    by (simp add: grows_def logger_def)
  have s: "?w' = logger LogInfo
                   (''Index built: '' @ string_of_nat (length (plugins ?index)) @ '' plugins, ''
                      @ string_of_nat (length (components ?index)) @ '' components'')
                   None (?w3\<lparr>store := c\<rparr>)"
    using miss assms(1,2,3) c st
    by (simp add: buildIndex_def Let_def logger_def
          indexPlugins_fst indexComponents_fst indexUtilities_fst)
  have l3: "x \<in> set (log ?w3) \<Longrightarrow> x \<in> set (log ?w')" for x
    by (subst s) (simp add: logger_def)
  have l2: "x \<in> set (log ?w2) \<Longrightarrow> x \<in> set (log ?w')" for x
    using grows_log_mono [OF indexUtilities_grows] l3 by blast
  have l1: "x \<in> set (log ?w1) \<Longrightarrow> x \<in> set (log ?w')" for x
    using grows_log_mono [OF indexComponents_grows] l2 by blast
  have wp: "\<forall>f e. f \<in> set pfiles \<and> \<not> skipped f \<and> script_of L F f = Inl e \<longrightarrow>
             warning ''plugin'' f e \<in> set (log ?w')"
    using indexPlugins_warns [OF assms(1)] l1 by blast
  have wc: "\<forall>f e. f \<in> set cfiles \<and> stylesheet_of L F f = Inl e \<longrightarrow>
             warning ''component'' f e \<in> set (log ?w')"
    using indexComponents_warns [OF assms(2)] l2 by blast
  have wu: "\<forall>f e. f \<in> set ufiles \<and> script_of L F f = Inl e \<longrightarrow>
             utility_warning f e \<in> set (log ?w')"
    using indexUtilities_warns [OF assms(3)] l3 by blast
  have "length (warnings ?w') = length (warnings ?w3)"
    by (subst s) (simp add: warnings_logger)
  then have n: "length (warnings ?w') =
          length (warnings w)
            + length (filter (\<lambda>f. \<not> skipped f \<and> isl (script_of L F f)) pfiles)
            + length (filter (\<lambda>f. isl (stylesheet_of L F f)) cfiles)
            + length (filter (\<lambda>f. isl (script_of L F f)) ufiles)"
    by (simp add: indexUtilities_count [OF assms(3)] indexComponents_count [OF assms(2)]
          indexPlugins_count [OF assms(1)] warnings_logger)
  have pp: "map plugin_path (plugins ?index) =
          map (path_relative L (foundationRepoPath idx)) (filter (gives_plugin L F) pfiles)"
    using map_map_filter [of plugin_path "plugin_of idx L F" "gives_plugin L F", OF plugin_of_path]
    by simp
  have pc: "map component_scssPath (components ?index) =
          map (path_relative L (foundationRepoPath idx))
            (filter (\<lambda>f. \<not> isl (stylesheet_of L F f)) cfiles)"
    using map_map_filter [of component_scssPath "component_of idx L F"
            "\<lambda>f. \<not> isl (stylesheet_of L F f)", OF component_of_path]
    by simp
  have pu: "map utility_path (utilities ?index) =
          map (path_relative L (foundationRepoPath idx))
            (filter (\<lambda>f. \<not> isl (script_of L F f)) ufiles)"
    using map_map_filter [of utility_path "utility_of idx L F"
            "\<lambda>f. \<not> isl (script_of L F f)", OF utility_of_path]
    by simp
  have "buildIndex idx L F w = (Inr ?index, ?w')"
    using f by (simp add: prod_eq_iff)
  with wp wc wu n pp pc pu show ?thesis
    by (intro exI [of _ ?index] exI [of _ ?w']) simp
qed

theorem buildIndex_isolates_file_failures_witness:
  "(\<exists>index w'. buildIndex example_indexer example_libs example_fs fresh_world = (Inr index, w')
      \<and> length (plugins index) = 9
      \<and> warning ''plugin'' ''/repo/js/foundation.broken.js''
           (ParseError ''Failed to parse JavaScript plugin: Unexpected token'' ''class {'')
         \<in> set (log w')
      \<and> length (warnings w') = 1)
   \<and> (\<exists>index w'. buildIndex example_indexer example_libs mixed_fs fresh_world = (Inr index, w')
      \<and> map plugin_path (plugins index) = [''js/foundation.tabs.js'']
      \<and> map component_scssPath (components index) = [''scss/components/_card.scss'']
      \<and> map utility_path (utilities index) = [''js/foundation.util.box.js'']
      \<and> warning ''plugin'' ''/repo/js/foundation.locked.js''
           (OtherError ''EACCES: permission denied'') \<in> set (log w')
      \<and> warning ''component'' ''/repo/scss/components/_broken.scss''
           (ParseError ''Failed to parse SCSS component: Unclosed block'' ''.card {'')
         \<in> set (log w')
      \<and> warning ''component'' ''/repo/scss/components/_locked.scss''
           (OtherError ''EACCES: permission denied'') \<in> set (log w')
      \<and> utility_warning ''/repo/js/foundation.util.gone.js''
           (OtherError ''ENOENT: no such file or directory'') \<in> set (log w')
      \<and> length (warnings w') = 4)"
proof -
  have e1: "map (path_relative example_libs (foundationRepoPath example_indexer))
              (filter (gives_plugin example_libs example_fs) plugin_files) =
            [''js/foundation.p1.js'', ''js/foundation.p2.js'', ''js/foundation.p3.js'',
             ''js/foundation.p4.js'', ''js/foundation.p5.js'', ''js/foundation.p6.js'',
             ''js/foundation.p7.js'', ''js/foundation.p8.js'', ''js/foundation.p9.js'']"
    by code_simp
  have e2: "length (filter (\<lambda>f. \<not> skipped f \<and> isl (script_of example_libs example_fs f))
              plugin_files) = 1"
    by code_simp
  have e3: "''/repo/js/foundation.broken.js'' \<in> set plugin_files
          \<and> \<not> skipped ''/repo/js/foundation.broken.js''
          \<and> script_of example_libs example_fs ''/repo/js/foundation.broken.js''
              = Inl (ParseError ''Failed to parse JavaScript plugin: Unexpected token'' ''class {'')"
    by code_simp
  have e4: "warnings fresh_world = []"
    by (simp add: warnings_def fresh_world_def)
  from buildIndex_isolates_file_failures
         [OF example_walks fresh_world_miss MemoryCache_accepts]
  obtain index w' where
    r: "buildIndex example_indexer example_libs example_fs fresh_world = (Inr index, w')"
    and p: "map plugin_path (plugins index) =
              map (path_relative example_libs (foundationRepoPath example_indexer))
                (filter (gives_plugin example_libs example_fs) plugin_files)"
    and w: "\<forall>f e. f \<in> set plugin_files \<and> \<not> skipped f
               \<and> script_of example_libs example_fs f = Inl e \<longrightarrow>
             warning ''plugin'' f e \<in> set (log w')"
    and n: "length (warnings w') =
              length (warnings fresh_world)
                + length (filter (\<lambda>f. \<not> skipped f \<and> isl (script_of example_libs example_fs f))
                    plugin_files)
                + length (filter (\<lambda>f. isl (stylesheet_of example_libs example_fs f)) [])
                + length (filter (\<lambda>f. isl (script_of example_libs example_fs f)) [])"
    by auto
  from p have "length (plugins index) = 9"
    unfolding e1 by (auto dest: arg_cong [of _ _ length])
  moreover from w e3 have "warning ''plugin'' ''/repo/js/foundation.broken.js''
           (ParseError ''Failed to parse JavaScript plugin: Unexpected token'' ''class {'')
         \<in> set (log w')"
    by blast
  moreover from n e2 e4 have "length (warnings w') = 1"
    by simp
  ultimately have first: "\<exists>index w'.
        buildIndex example_indexer example_libs example_fs fresh_world = (Inr index, w')
      \<and> length (plugins index) = 9
      \<and> warning ''plugin'' ''/repo/js/foundation.broken.js''
           (ParseError ''Failed to parse JavaScript plugin: Unexpected token'' ''class {'')
         \<in> set (log w')
      \<and> length (warnings w') = 1"
    using r by blast
  have m1: "map (path_relative example_libs (foundationRepoPath example_indexer))
              (filter (gives_plugin example_libs mixed_fs) mixed_scripts) =
            [''js/foundation.tabs.js'']"
    by code_simp
  have m2: "map (path_relative example_libs (foundationRepoPath example_indexer))
              (filter (\<lambda>f. \<not> isl (stylesheet_of example_libs mixed_fs f)) mixed_stylesheets) =
            [''scss/components/_card.scss'']"
    by code_simp
  have m3: "map (path_relative example_libs (foundationRepoPath example_indexer))
              (filter (\<lambda>f. \<not> isl (script_of example_libs mixed_fs f)) mixed_utilities) =
            [''js/foundation.util.box.js'']"
    by code_simp
  have m4: "length (filter (\<lambda>f. \<not> skipped f \<and> isl (script_of example_libs mixed_fs f))
              mixed_scripts) = 1
          \<and> length (filter (\<lambda>f. isl (stylesheet_of example_libs mixed_fs f)) mixed_stylesheets) = 2
          \<and> length (filter (\<lambda>f. isl (script_of example_libs mixed_fs f)) mixed_utilities) = 1"
    by code_simp
  have m5: "''/repo/js/foundation.locked.js'' \<in> set mixed_scripts
          \<and> \<not> skipped ''/repo/js/foundation.locked.js''
          \<and> script_of example_libs mixed_fs ''/repo/js/foundation.locked.js''
              = Inl (OtherError ''EACCES: permission denied'')"
    by code_simp
  have m6: "''/repo/scss/components/_broken.scss'' \<in> set mixed_stylesheets
          \<and> stylesheet_of example_libs mixed_fs ''/repo/scss/components/_broken.scss''
              = Inl (ParseError ''Failed to parse SCSS component: Unclosed block'' ''.card {'')
          \<and> ''/repo/scss/components/_locked.scss'' \<in> set mixed_stylesheets
          \<and> stylesheet_of example_libs mixed_fs ''/repo/scss/components/_locked.scss''
              = Inl (OtherError ''EACCES: permission denied'')"
    by code_simp
  have m7: "''/repo/js/foundation.util.gone.js'' \<in> set mixed_utilities
          \<and> script_of example_libs mixed_fs ''/repo/js/foundation.util.gone.js''
              = Inl (OtherError ''ENOENT: no such file or directory'')"
    by code_simp
  from buildIndex_isolates_file_failures
         [OF mixed_walks fresh_world_miss MemoryCache_accepts]
  obtain index2 w2 where
    r2: "buildIndex example_indexer example_libs mixed_fs fresh_world = (Inr index2, w2)"
    and p2: "map plugin_path (plugins index2) =
              map (path_relative example_libs (foundationRepoPath example_indexer))
                (filter (gives_plugin example_libs mixed_fs) mixed_scripts)"
    and c2: "map component_scssPath (components index2) =
              map (path_relative example_libs (foundationRepoPath example_indexer))
                (filter (\<lambda>f. \<not> isl (stylesheet_of example_libs mixed_fs f)) mixed_stylesheets)"
    and u2: "map utility_path (utilities index2) =
              map (path_relative example_libs (foundationRepoPath example_indexer))
                (filter (\<lambda>f. \<not> isl (script_of example_libs mixed_fs f)) mixed_utilities)"
    and wp2: "\<forall>f e. f \<in> set mixed_scripts \<and> \<not> skipped f
               \<and> script_of example_libs mixed_fs f = Inl e \<longrightarrow>
             warning ''plugin'' f e \<in> set (log w2)"
    and wc2: "\<forall>f e. f \<in> set mixed_stylesheets \<and> stylesheet_of example_libs mixed_fs f = Inl e \<longrightarrow>
             warning ''component'' f e \<in> set (log w2)"
    and wu2: "\<forall>f e. f \<in> set mixed_utilities \<and> script_of example_libs mixed_fs f = Inl e \<longrightarrow>
             utility_warning f e \<in> set (log w2)"
    and n2: "length (warnings w2) =
              length (warnings fresh_world)
                + length (filter (\<lambda>f. \<not> skipped f \<and> isl (script_of example_libs mixed_fs f))
                    mixed_scripts)
                + length (filter (\<lambda>f. isl (stylesheet_of example_libs mixed_fs f)) mixed_stylesheets)
                + length (filter (\<lambda>f. isl (script_of example_libs mixed_fs f)) mixed_utilities)"
    by auto
  from wp2 m5 have "warning ''plugin'' ''/repo/js/foundation.locked.js''
           (OtherError ''EACCES: permission denied'') \<in> set (log w2)"
    by blast
  moreover from wc2 m6 have "warning ''component'' ''/repo/scss/components/_broken.scss''
           (ParseError ''Failed to parse SCSS component: Unclosed block'' ''.card {'')
         \<in> set (log w2)"
    by blast
  moreover from wc2 m6 have "warning ''component'' ''/repo/scss/components/_locked.scss''
           (OtherError ''EACCES: permission denied'') \<in> set (log w2)"
    by blast
  moreover from wu2 m7 have "utility_warning ''/repo/js/foundation.util.gone.js''
           (OtherError ''ENOENT: no such file or directory'') \<in> set (log w2)"
    by blast
  moreover from n2 m4 e4 have "length (warnings w2) = 4"
    by simp
  ultimately have second: "\<exists>index w'.
        buildIndex example_indexer example_libs mixed_fs fresh_world = (Inr index, w')
      \<and> map plugin_path (plugins index) = [''js/foundation.tabs.js'']
      \<and> map component_scssPath (components index) = [''scss/components/_card.scss'']
      \<and> map utility_path (utilities index) = [''js/foundation.util.box.js'']
      \<and> warning ''plugin'' ''/repo/js/foundation.locked.js''
           (OtherError ''EACCES: permission denied'') \<in> set (log w')
      \<and> warning ''component'' ''/repo/scss/components/_broken.scss''
           (ParseError ''Failed to parse SCSS component: Unclosed block'' ''.card {'')
         \<in> set (log w')
      \<and> warning ''component'' ''/repo/scss/components/_locked.scss''
           (OtherError ''EACCES: permission denied'') \<in> set (log w')
      \<and> utility_warning ''/repo/js/foundation.util.gone.js''
           (OtherError ''ENOENT: no such file or directory'') \<in> set (log w')
      \<and> length (warnings w') = 4"
    using r2 p2 c2 u2 unfolding m1 m2 m3
    by (intro exI [of _ index2] exI [of _ w2]) simp
  from first second show ?thesis by (rule conjI)
qed

text \<open>
  With a cache that answers the lookup and rejects the store, the three walks of the
  worked repository succeed, nine plugin files are read and parsed, and the build is
  rejected with the error of the cache.
\<close>

theorem buildIndex_rejected_by_cache:
  "findFiles example_fs (jsDir replica_indexer example_libs) ''foundation.*.js'' = Inr plugin_files
   \<and> findFiles example_fs (scssDir replica_indexer example_libs) ''*.scss'' = Inr []
   \<and> findFiles example_fs (jsDir replica_indexer example_libs) ''foundation.util.*.js'' = Inr []
   \<and> length (filter (gives_plugin example_libs example_fs) plugin_files) = 9
   \<and> fst (buildIndex replica_indexer example_libs example_fs fresh_world) = Inl read_only"
  by code_simp

section \<open>Properties of the refactoring analyzer\<close>

lemma analyze_fst:
  assumes "parses L t code" and "fst (buildIndex idx L F w) = Inr index"
  shows "\<exists>r. fst (analyzeForRefactoring idx L F code t target w) = Inr r
           \<and> analysed r = t
           \<and> suggestedFoundationComponents r =
               (case t of
                  CustomPlugin \<Rightarrow> findSimilarComponents (plugin_features code) (plugins index) target
                | CustomComponent \<Rightarrow>
                    findSimilarComponents (component_features code) (components index) target)"
proof -
  let ?w0 = "logger LogInfo ''Analyzing code for Foundation refactoring''
               (Some (Fields [(''sourceType'', sourceType_text t)])) w"
  have "fst (buildIndex idx L F ?w0) = Inr index"
    using assms(2) buildIndex_fst_store [of ?w0 w idx L F] by (simp add: logger_def)
  then obtain w1 where b: "buildIndex idx L F ?w0 = (Inr index, w1)"
    by (cases "buildIndex idx L F ?w0") auto
  show ?thesis
  proof (cases t)
    case CustomPlugin
    with assms(1) obtain p where "parsePlugin L code = Inr p"
      by (cases "parsePlugin L code") (auto simp: parses_def)
    with CustomPlugin b show ?thesis
      by (simp add: analyzeForRefactoring_def analyzePluginForRefactoring_def Let_def)
  next
    case CustomComponent
    with assms(1) obtain p where "parseComponent L code = Inr p"
      by (cases "parseComponent L code") (auto simp: parses_def)
    with CustomComponent b show ?thesis
      by (simp add: analyzeForRefactoring_def analyzeComponentForRefactoring_def Let_def)
  qed
qed

text \<open>
  C7. When the parse of the source given to \<^verbatim>\<open>analyzeForRefactoring\<close> fails (the
  script grammar for a plugin, the stylesheet grammar for a component), the call
  fails with that very error, a \<^verbatim>\<open>ParseError\<close> carrying the source; no analysis is
  returned, the cache is not touched and no file is looked at.
\<close>

theorem parse_error_is_fatal:
  assumes "(srcType = CustomPlugin \<and> parsePlugin L code = Inl e)
         \<or> (srcType = CustomComponent \<and> parseComponent L code = Inl e)"
  shows "fst (analyzeForRefactoring idx L F code srcType target w) = Inl e
       \<and> (\<exists>m. e = ParseError m code)
       \<and> store (snd (analyzeForRefactoring idx L F code srcType target w)) = store w
       \<and> fs_calls (snd (analyzeForRefactoring idx L F code srcType target w)) = fs_calls w"
  using assms
  by (auto simp: analyzeForRefactoring_def analyzePluginForRefactoring_def
        analyzeComponentForRefactoring_def Let_def logger_def parsePlugin_def parseComponent_def
      split: sum.splits)

theorem parse_error_is_fatal_witness:
  "fst (analyzeForRefactoring example_indexer example_libs example_fs ''class {'' CustomPlugin
          None fresh_world) =
     Inl (ParseError ''Failed to parse JavaScript plugin: Unexpected token'' ''class {'')"
proof -
  have h: "(CustomPlugin = CustomPlugin \<and> parsePlugin example_libs ''class {'' =
              Inl (ParseError ''Failed to parse JavaScript plugin: Unexpected token'' ''class {''))
          \<or> (CustomPlugin = CustomComponent \<and> parseComponent example_libs ''class {'' =
              Inl (ParseError ''Failed to parse JavaScript plugin: Unexpected token'' ''class {''))"
    by code_simp
  from parse_error_is_fatal [OF h] show ?thesis by blast
qed

lemma find_slug:
  "t \<in> snd ` set (map (\<lambda>c. (name c, slug c)) xs) \<Longrightarrow>
     \<exists>c. find (\<lambda>c. Some (slug c) = Some t) xs = Some c
         \<and> find (\<lambda>e. snd e = t) (map (\<lambda>c. (name c, slug c)) xs) = Some (name c, t)"
  by (induction xs) auto

text \<open>
  C3 (as amended). When the source parses, the catalog snapshot is there, and the
  explicit target is a slug that is not the empty string and occurs in the catalog of
  the declared kind, the result has exactly one suggestion: the first catalog entry
  with that slug, with similarity 100 and the reasoning
  \<^verbatim>\<open>User specified target: \<close> followed by its name, whatever the source contains.
\<close>

theorem explicit_target_short_circuit:
  assumes "parses L srcType code"
    and "fst (buildIndex idx L F w) = Inr index"
    and "t \<noteq> []"
    and "t \<in> snd ` set (catalog index srcType)"
  shows "\<exists>r nm. fst (analyzeForRefactoring idx L F code srcType (Some t) w) = Inr r
           \<and> find (\<lambda>e. snd e = t) (catalog index srcType) = Some (nm, t)
           \<and> suggestedFoundationComponents r =
               [\<lparr>name = nm, slug = t, similarity = 100,
                 reasoning = ''User specified target: '' @ nm\<rparr>]"
proof -
  obtain r where r: "fst (analyzeForRefactoring idx L F code srcType (Some t) w) = Inr r"
    and s: "suggestedFoundationComponents r =
               (case srcType of
                  CustomPlugin \<Rightarrow> findSimilarComponents (plugin_features code) (plugins index) (Some t)
                | CustomComponent \<Rightarrow>
                    findSimilarComponents (component_features code) (components index) (Some t))"
    using analyze_fst [OF assms(1,2)] by blast
  show ?thesis
  proof (cases srcType)
    case CustomPlugin
    with assms(4) obtain c where
      "find (\<lambda>c. Some (slug c) = Some t) (plugins index) = Some c"
      "find (\<lambda>e. snd e = t) (catalog index srcType) = Some (name c, t)"
      using find_slug [of t "plugins index"] by (auto simp: catalog_def)
    moreover from this(1) have "slug c = t"
      by (auto simp: find_Some_iff)
    ultimately show ?thesis
      using r s CustomPlugin assms(3)
      by (simp add: findSimilarComponents_def truthy_opt_def truthy_def)
  next
    case CustomComponent
    with assms(4) obtain c where
      "find (\<lambda>c. Some (slug c) = Some t) (components index) = Some c"
      "find (\<lambda>e. snd e = t) (catalog index srcType) = Some (name c, t)"
      using find_slug [of t "components index"] by (auto simp: catalog_def)
    moreover from this(1) have "slug c = t"
      by (auto simp: find_Some_iff)
    ultimately show ?thesis
      using r s CustomComponent assms(3)
      by (simp add: findSimilarComponents_def truthy_opt_def truthy_def)
  qed
qed

theorem explicit_target_short_circuit_witness:
  "\<exists>r. fst (analyzeForRefactoring example_indexer example_libs example_fs tabs_code CustomPlugin
             (Some ''p3'') fresh_world) = Inr r
      \<and> suggestedFoundationComponents r =
           [\<lparr>name = ''Tabs'', slug = ''p3'', similarity = 100,
             reasoning = ''User specified target: Tabs''\<rparr>]"
proof -
  let ?index = "\<lparr>plugins = List.map_filter (plugin_of example_indexer example_libs example_fs) plugin_files,
          components = [], utilities = [], grids = indexGrids\<rparr>"
  have h1: "parses example_libs CustomPlugin tabs_code" by code_simp
  have h3: "''p3'' \<noteq> []" by simp
  have c: "catalog ?index CustomPlugin =
             [(''Tabs'', ''p1''), (''Tabs'', ''p2''), (''Tabs'', ''p3''), (''Tabs'', ''p4''),
              (''Tabs'', ''p5''), (''Tabs'', ''p6''), (''Tabs'', ''p7''), (''Tabs'', ''p8''),
              (''Tabs'', ''p9'')]"
    by code_simp
  have h4: "''p3'' \<in> snd ` set (catalog ?index CustomPlugin)"
    unfolding c by simp
  from explicit_target_short_circuit [OF h1 example_build h3 h4]
  show ?thesis
    unfolding c by auto
qed

text \<open>
  A repository whose only stylesheet is \<^verbatim>\<open>_.scss\<close> has a component with the empty
  slug. The empty string as explicit target is a slug of that catalog, and the
  suggestions are the two of the detected features, with similarity 85.
\<close>

theorem empty_target_not_short_circuited:
  "fst (buildIndex example_indexer example_libs odd_fs fresh_world) =
     Inr \<lparr>plugins = [],
          components =
            [\<lparr>name = [], slug = [], component_scssPath = ''scss/components/_.scss'',
              component_description = Text '' component'', component_mixins = [],
              cssClasses = [''card'', ''badge''],
              component_docs = ''https://get.foundation/sites/docs/.html''\<rparr>],
          utilities = [], grids = indexGrids\<rparr>
   \<and> map_sum id suggestedFoundationComponents
        (fst (analyzeForRefactoring example_indexer example_libs odd_fs cards_code CustomComponent
                (Some []) fresh_world)) =
     Inr [\<lparr>name = ''Card'', slug = ''card'', similarity = 85,
            reasoning = ''Detected card functionality''\<rparr>,
          \<lparr>name = ''Badge'', slug = ''badge'', similarity = 85,
            reasoning = ''Detected badge functionality''\<rparr>]"
  by code_simp










text \<open>
  Two features with the same target are not merged: a stylesheet with the keywords
  \<^verbatim>\<open>alert\<close> and \<^verbatim>\<open>callout\<close> gets the suggestion \<^verbatim>\<open>Callout\<close> twice.
\<close>

theorem colliding_features_both_suggested:
  "findSimilarComponents (component_features ''.alert { } .callout { }'')
      ([] :: FoundationComponent list) None =
     [\<lparr>name = ''Callout'', slug = ''callout'', similarity = 85,
       reasoning = ''Detected alert functionality''\<rparr>,
      \<lparr>name = ''Callout'', slug = ''callout'', similarity = 85,
       reasoning = ''Detected callout functionality''\<rparr>]"
  by code_simp

end
